theory Spec2Isabelle
  imports Main "HOL-Library.Word"
begin

section \<open>Go values handed to and returned by the converter\<close>

text \<open>
  The package converts between Go values of type \<^verbatim>\<open>interface{}\<close> and CoreFoundation
  objects. Two copies of the conversion code exist in the repository:
  \<^verbatim>\<open>mac_prefs/foundation.go\<close> (exported names, \<^verbatim>\<open>ConvertToCFType\<close>) and
  \<^verbatim>\<open>unnamed/part_000\<close> (unexported names, \<^verbatim>\<open>convertToCFType\<close>). Both are embedded
  below under the names they have in the source.
\<close>

type_synonym byte = "8 word"

text \<open>
  A \<^verbatim>\<open>float64\<close> is its IEEE-754 binary64 bit pattern. A \<^verbatim>\<open>float32\<close> is represented by
  the bit pattern of the \<^verbatim>\<open>float64\<close> with the same value: the conversion
  \<^verbatim>\<open>float64(num)\<close> is exact, so it is the identity on this representation.
\<close>

type_synonym float64 = "64 word"

definition f64_is_zero :: "float64 \<Rightarrow> bool" where
  \<comment> \<open>\<^verbatim>\<open>f == 0\<close>: true of +0 and -0 only (a NaN compares unequal to everything)\<close>
  "f64_is_zero f = (f = 0 \<or> f = 0x8000000000000000)"

datatype location = UTC | Zone string

text \<open>
  A \<^verbatim>\<open>time.Time\<close>: \<open>unix\<close> is what \<^verbatim>\<open>t.Unix()\<close> returns (an \<^verbatim>\<open>int64\<close>),
  \<open>nanos\<close> the nanoseconds within the second, \<open>loc\<close> the location.
\<close>

datatype gotime = Time (unix: "64 word") (nanos: nat) (loc: location)

text \<open>
  The dynamic type of an \<^verbatim>\<open>interface{}\<close> value decides every type switch of the source,
  so each Go type the switches mention is a constructor. Go's \<^verbatim>\<open>int\<close> and \<^verbatim>\<open>uint\<close> are
  64 bits wide on darwin. A \<^verbatim>\<open>map[string]interface{}\<close> is the list of its entries in the
  order \<^verbatim>\<open>range\<close> visits them (keys distinct). \<open>VSliceOf\<close> is a slice of any other
  type (reflect kind Slice), \<open>VStrKeyMap\<close> a map of any other type whose key kind is String,
  \<open>VOther\<close> any remaining value; each carries the name \<^verbatim>\<open>%T\<close> prints.
\<close>

datatype dyn =
    VNil
  | VString string
  | VBytes "byte list"
  | VBool bool
  | VTime gotime
  | VInt "64 word" | VInt8 "8 word" | VInt16 "16 word" | VInt32 "32 word" | VInt64 "64 word"
  | VUint "64 word" | VUint8 "8 word" | VUint16 "16 word" | VUint32 "32 word" | VUint64 "64 word"
  | VFloat32 float64
  | VFloat64 float64
  | VSlice "dyn list"
  | VMap "(string \<times> dyn) list"
  | VSliceOf string "dyn list"
  | VStrKeyMap string
  | VOther string

fun type_name :: "dyn \<Rightarrow> string" where
  "type_name VNil = ''<nil>''"
| "type_name (VString _) = ''string''"
| "type_name (VBytes _) = ''[]uint8''"
| "type_name (VBool _) = ''bool''"
| "type_name (VTime _) = ''time.Time''"
| "type_name (VInt _) = ''int''"
| "type_name (VInt8 _) = ''int8''"
| "type_name (VInt16 _) = ''int16''"
| "type_name (VInt32 _) = ''int32''"
| "type_name (VInt64 _) = ''int64''"
| "type_name (VUint _) = ''uint''"
| "type_name (VUint8 _) = ''uint8''"
| "type_name (VUint16 _) = ''uint16''"
| "type_name (VUint32 _) = ''uint32''"
| "type_name (VUint64 _) = ''uint64''"
| "type_name (VFloat32 _) = ''float32''"
| "type_name (VFloat64 _) = ''float64''"
| "type_name (VSlice _) = ''[]interface {}''"
| "type_name (VMap _) = ''map[string]interface {}''"
| "type_name (VSliceOf t _) = t"
| "type_name (VStrKeyMap t) = t"
| "type_name (VOther t) = t"

section \<open>Errors and crashes\<close>

text \<open>
  The source builds its errors with \<^verbatim>\<open>errors.New\<close> and \<^verbatim>\<open>fmt.Errorf\<close>; each message
  is a constructor, and a wrapping message carries the error it wraps. A crash is a Go
  run-time panic or a trap inside CoreFoundation: it is not returned as an \<^verbatim>\<open>error\<close>
  and no \<^verbatim>\<open>if err != nil\<close> of the source sees it.
\<close>

datatype error =
    CFStringCreateFailed            \<comment> \<open>"CFStringCreateWithCString failed"\<close>
  | DataTooLarge                    \<comment> \<open>"data is too large"\<close>
  | CFDataCreateFailed              \<comment> \<open>"CFDataCreate failed"\<close>
  | CFDictionaryCreateFailed        \<comment> \<open>"CFDictionaryCreate failed"\<close>
  | UnsupportedType string          \<comment> \<open>"unsupported type: %T"\<close>
  | UnsupportedCFNumberType         \<comment> \<open>"unsupported CFNumber type"\<close>
  | UnsupportedCFTypeRef            \<comment> \<open>"unsupported CFTypeRef type"\<close>
  | ArrayItemError nat error        \<comment> \<open>"error converting array item at index %d: %v"\<close>
  | KeyToCFStringError error        \<comment> \<open>"error converting key to CFString: %v"\<close>
  | MapValueError string error      \<comment> \<open>"error converting value for key %s: %v"\<close>
  | MapToCFDictionaryError error    \<comment> \<open>"error converting map to CFDictionary: %v"\<close>
  | DictValueError string error     \<comment> \<open>"error converting dictionary value for key %s: %v"\<close>
  | SetKeyError error               \<comment> \<open>"error creating CFString for key: %v"\<close>
  | SetValueError error             \<comment> \<open>"error converting value to CFType: %v"\<close>
  | SetAppIDError error             \<comment> \<open>"error creating CFString for applicationID: %v"\<close>
  | InvalidUserType                 \<comment> \<open>"invalid user type in scope: ..."\<close>
  | InvalidHostType                 \<comment> \<open>"invalid host type in scope: ..."\<close>
  | SynchronizeFailed               \<comment> \<open>"failed to synchronize preferences"\<close>

datatype crash =
    IndexOutOfRange       \<comment> \<open>Go: \<^verbatim>\<open>&s[0]\<close> on a slice of length 0\<close>
  | ReflectIntOnUint      \<comment> \<open>Go: \<^verbatim>\<open>reflect.Value.Int\<close> on a value of an unsigned kind\<close>
  | InterfaceConversion   \<comment> \<open>Go: failed type assertion without the comma-ok form\<close>
  | CFNullArgument        \<comment> \<open>CoreFoundation: NULL where an object is required\<close>
  | CFWrongType           \<comment> \<open>CoreFoundation: accessor applied to an object of another type\<close>
  | GoBytesLength         \<comment> \<open>Go: \<^verbatim>\<open>C.GoBytes\<close> with a negative length\<close>

datatype failure = Err error | Crash crash

section \<open>CoreFoundation objects and their reference counts\<close>

datatype number_type =
    kCFNumberSInt8Type | kCFNumberSInt16Type | kCFNumberSInt32Type | kCFNumberSInt64Type
  | kCFNumberFloat32Type | kCFNumberFloat64Type
  | kCFNumberCharType | kCFNumberShortType | kCFNumberIntType | kCFNumberLongType
  | kCFNumberLongLongType | kCFNumberFloatType | kCFNumberDoubleType
  | kCFNumberCFIndexType | kCFNumberNSIntegerType | kCFNumberCGFloatType

text \<open>
  A \<^verbatim>\<open>CFTypeRef\<close> is NULL or the address of an object. The objects the package creates
  and reads are immutable, so a non-null reference is modelled as the address together with
  the object found there; an aggregate holds the references of its members.
  \<^item> \<open>CFString\<close> holds its characters as the UTF-8 bytes \<^verbatim>\<open>CFStringGetBytes\<close> writes.
  \<^item> \<open>CFDate\<close> holds a \<^verbatim>\<open>CFAbsoluteTime\<close>, a double; the model covers the doubles that
    are whole numbers of seconds (all that \<^verbatim>\<open>TimeToCFDate\<close> stores) and keeps the number.
  \<^item> \<open>CFNumber\<close> holds the storage tag \<^verbatim>\<open>CFNumberGetType\<close> reports and the 64-bit value
    \<^verbatim>\<open>CFNumberGetValue\<close> reads in the 64-bit type of the tag's family: an \<^verbatim>\<open>int64\<close> for
    an integer tag, the bits of a double for a float tag.
  \<^item> \<open>CFOther\<close> is an object of any other CoreFoundation type.
\<close>

datatype cfref = NilCFType | Ref nat cfobj
and cfobj =
    CFString string
  | CFData "byte list"
  | CFBoolean bool
  | CFDate int
  | CFNumber number_type "64 word"
  | CFArray "cfref list"
  | CFDictionary "(cfref \<times> cfref) list"
  | CFOther

text \<open>The two process-wide boolean objects live at fixed addresses and are never freed.\<close>

definition kCFBooleanTrue :: cfref where
  "kCFBooleanTrue = Ref 1 (CFBoolean True)"

definition kCFBooleanFalse :: cfref where
  "kCFBooleanFalse = Ref 2 (CFBoolean False)"

definition is_constant_object :: "nat \<Rightarrow> bool" where
  "is_constant_object a = (a = 1 \<or> a = 2)"

text \<open>
  The state the code acts on: the retain count of every address (0 for an address that
  holds no live object), the next address the allocator hands out, the references the
  program has passed to \<^verbatim>\<open>CFRelease\<close> (in call order), the preferences store, and the
  answer the next \<^verbatim>\<open>CFPreferencesSynchronize\<close> gives.
\<close>

record cf_state =
  refcount :: "nat \<Rightarrow> nat"
  next_addr :: nat
  released :: "cfref list"
  prefs :: "(string \<times> string \<times> string \<times> string) \<Rightarrow> cfref option"
  sync_ok :: bool

definition initial_state :: cf_state where
  "initial_state = \<lparr> refcount = (\<lambda>_. 0), next_addr = 3, released = [],
                     prefs = (\<lambda>_. None), sync_ok = True \<rparr>"

definition cf_create :: "cfobj \<Rightarrow> cf_state \<Rightarrow> cfref \<times> cf_state" where
  \<comment> \<open>a \<^verbatim>\<open>CF...Create\<close> call: a fresh object owned by the caller (retain count 1)\<close>
  "cf_create obj s =
     (Ref (next_addr s) obj,
      s\<lparr> refcount := (refcount s)(next_addr s := 1), next_addr := Suc (next_addr s) \<rparr>)"

fun cf_retain :: "cfref \<Rightarrow> cf_state \<Rightarrow> cf_state" where
  "cf_retain NilCFType s = s"
| "cf_retain (Ref a obj) s =
     (if is_constant_object a then s
      else s\<lparr> refcount := (refcount s)(a := Suc (refcount s a)) \<rparr>)"

text \<open>
  Dropping one reference. When the last reference goes, the object is freed and an
  aggregate drops the references it holds on its members (the \<^verbatim>\<open>kCFType...CallBacks\<close>).
\<close>

function cf_drop :: "cfref \<Rightarrow> cf_state \<Rightarrow> cf_state"
and cf_drop_all :: "cfref list \<Rightarrow> cf_state \<Rightarrow> cf_state"
and cf_drop_entries :: "(cfref \<times> cfref) list \<Rightarrow> cf_state \<Rightarrow> cf_state" where
  "cf_drop NilCFType s = s"
| "cf_drop (Ref a obj) s =
     (if is_constant_object a \<or> refcount s a = 0 then s
      else if 1 < refcount s a then s\<lparr> refcount := (refcount s)(a := refcount s a - 1) \<rparr>
      else (case obj of
              CFArray items \<Rightarrow> cf_drop_all items (s\<lparr> refcount := (refcount s)(a := 0) \<rparr>)
            | CFDictionary kvs \<Rightarrow> cf_drop_entries kvs (s\<lparr> refcount := (refcount s)(a := 0) \<rparr>)
            | _ \<Rightarrow> s\<lparr> refcount := (refcount s)(a := 0) \<rparr>))"
| "cf_drop_all [] s = s"
| "cf_drop_all (r # rs) s = cf_drop_all rs (cf_drop r s)"
| "cf_drop_entries [] s = s"
| "cf_drop_entries ((k, v) # kvs) s = cf_drop_entries kvs (cf_drop v (cf_drop k s))"
  by pat_completeness auto
termination
  by (relation "measure (\<lambda>x. case x of
          Inl (r, s) \<Rightarrow> size r
        | Inr (Inl (rs, s)) \<Rightarrow> size_list size rs
        | Inr (Inr (kvs, s)) \<Rightarrow> size_list (size_prod size size) kvs)") auto

definition CFRelease :: "cfref \<Rightarrow> cf_state \<Rightarrow> cf_state" where
  \<comment> \<open>a call \<^verbatim>\<open>C.CFRelease(ref)\<close> of the program; no call site of the source passes NULL\<close>
  "CFRelease r s = cf_drop r (s\<lparr> released := released s @ [r] \<rparr>)"


section \<open>The CoreFoundation calls the package makes\<close>

text \<open>
  \<^verbatim>\<open>CFStringCreateWithCString\<close> reads a C string: the bytes up to the first zero byte.
  With \<^verbatim>\<open>kCFStringEncodingUTF8\<close> it returns NULL unless they are well-formed UTF-8.
\<close>

definition utf8_cont :: "nat \<Rightarrow> bool" where
  "utf8_cont b = (0x80 \<le> b \<and> b \<le> 0xBF)"

definition utf8_two :: "nat \<Rightarrow> nat \<Rightarrow> bool" where
  "utf8_two b0 b1 = (0xC2 \<le> b0 \<and> b0 \<le> 0xDF \<and> utf8_cont b1)"

definition utf8_three :: "nat \<Rightarrow> nat \<Rightarrow> nat \<Rightarrow> bool" where
  "utf8_three b0 b1 b2 =
     (((b0 = 0xE0 \<and> 0xA0 \<le> b1 \<and> b1 \<le> 0xBF)
       \<or> (((0xE1 \<le> b0 \<and> b0 \<le> 0xEC) \<or> (0xEE \<le> b0 \<and> b0 \<le> 0xEF)) \<and> utf8_cont b1)
       \<or> (b0 = 0xED \<and> 0x80 \<le> b1 \<and> b1 \<le> 0x9F))
      \<and> utf8_cont b2)"

definition utf8_four :: "nat \<Rightarrow> nat \<Rightarrow> nat \<Rightarrow> nat \<Rightarrow> bool" where
  "utf8_four b0 b1 b2 b3 =
     (((b0 = 0xF0 \<and> 0x90 \<le> b1 \<and> b1 \<le> 0xBF)
       \<or> (0xF1 \<le> b0 \<and> b0 \<le> 0xF3 \<and> utf8_cont b1)
       \<or> (b0 = 0xF4 \<and> 0x80 \<le> b1 \<and> b1 \<le> 0x8F))
      \<and> utf8_cont b2 \<and> utf8_cont b3)"

fun valid_utf8 :: "nat list \<Rightarrow> bool" where
  "valid_utf8 [] = True"
| "valid_utf8 [b0] = (b0 < 0x80)"
| "valid_utf8 [b0, b1] = (if b0 < 0x80 then valid_utf8 [b1] else utf8_two b0 b1)"
| "valid_utf8 [b0, b1, b2] =
     (if b0 < 0x80 then valid_utf8 [b1, b2]
      else if utf8_two b0 b1 then valid_utf8 [b2]
      else utf8_three b0 b1 b2)"
| "valid_utf8 (b0 # b1 # b2 # b3 # bs) =
     (if b0 < 0x80 then valid_utf8 (b1 # b2 # b3 # bs)
      else if utf8_two b0 b1 then valid_utf8 (b2 # b3 # bs)
      else if utf8_three b0 b1 b2 then valid_utf8 (b3 # bs)
      else utf8_four b0 b1 b2 b3 \<and> valid_utf8 bs)"

definition c_string :: "string \<Rightarrow> string" where
  \<comment> \<open>what a C function reads from \<^verbatim>\<open>C.CString(s)\<close>\<close>
  "c_string s = takeWhile (\<lambda>c. c \<noteq> CHR 0x00) s"

definition CFStringCreateWithCString :: "string \<Rightarrow> cf_state \<Rightarrow> cfref \<times> cf_state" where
  "CFStringCreateWithCString cstr s =
     (if valid_utf8 (map of_char cstr) then cf_create (CFString cstr) s else (NilCFType, s))"

text \<open>
  \<^verbatim>\<open>CFArrayCreate\<close> and \<^verbatim>\<open>CFDictionaryCreate\<close> with the \<^verbatim>\<open>kCFType...CallBacks\<close> retain
  every member they keep; retaining NULL traps. A dictionary keeps the first entry of each
  key (\<^verbatim>\<open>CFEqual\<close>: the same object, or equal contents).
\<close>

fun CFEqual :: "cfref \<Rightarrow> cfref \<Rightarrow> bool" where
  "CFEqual (Ref a x) (Ref b y) = (a = b \<or> x = y)"
| "CFEqual r1 r2 = (r1 = r2)"

fun dict_entries :: "(cfref \<times> cfref) list \<Rightarrow> (cfref \<times> cfref) list \<Rightarrow> (cfref \<times> cfref) list" where
  "dict_entries acc [] = acc"
| "dict_entries acc ((k, v) # kvs) =
     (if list_ex (\<lambda>(k', v'). CFEqual k' k) acc then dict_entries acc kvs
      else dict_entries (acc @ [(k, v)]) kvs)"

definition CFArrayCreate :: "cfref list \<Rightarrow> cf_state \<Rightarrow> (failure + cfref) \<times> cf_state" where
  "CFArrayCreate values s =
     (if NilCFType \<in> set values then (Inl (Crash CFNullArgument), s)
      else (case cf_create (CFArray values) s of
              (cfArray, s') \<Rightarrow> (Inr cfArray, fold cf_retain values s')))"

definition CFDictionaryCreate ::
  "cfref list \<Rightarrow> cfref list \<Rightarrow> cf_state \<Rightarrow> (failure + cfref) \<times> cf_state" where
  "CFDictionaryCreate keys values s =
     (let kvs = dict_entries [] (zip keys values) in
      if NilCFType \<in> set (map fst kvs) \<union> set (map snd kvs) then (Inl (Crash CFNullArgument), s)
      else (case cf_create (CFDictionary kvs) s of
              (cfDict, s') \<Rightarrow> (Inr cfDict, fold cf_retain (map fst kvs @ map snd kvs) s')))"

section \<open>Doubles that hold whole numbers\<close>

text \<open>
  \<^verbatim>\<open>TimeToCFDate\<close> and \<^verbatim>\<open>CFDateToTime\<close> compute in \<^verbatim>\<open>float64\<close> with integers only. A
  double has a 53-bit significand: an integer \<open>x\<close> is rounded to the nearest multiple of
  \<open>2 ^ e\<close>, where \<open>e\<close> is least with \<open>\<bar>x\<bar> div 2 ^ e < 2 ^ 53\<close>, ties going to the even
  significand.
\<close>

function f64_exponent :: "int \<Rightarrow> nat" where
  "f64_exponent a = (if a < 2 ^ 53 then 0 else Suc (f64_exponent (a div 2)))"
  by pat_completeness auto
termination
  by (relation "measure nat") auto

definition f64_round :: "int \<Rightarrow> int" where
  "f64_round x =
     (let a = \<bar>x\<bar>; e = f64_exponent a; q = a div 2 ^ e; r = a mod 2 ^ e;
          q' = (if 2 ^ e < 2 * r \<or> (2 * r = 2 ^ e \<and> odd q) then q + 1 else q)
      in sgn x * (q' * 2 ^ e))"

text \<open>
  \<^verbatim>\<open>int64(f)\<close> for a whole \<open>f\<close>. Where the \<^verbatim>\<open>int64\<close> cannot hold \<open>f\<close> the Go
  specification leaves the result to the implementation, so it depends on the architecture
  the package is built for: amd64 gives the least \<^verbatim>\<open>int64\<close>, arm64 the nearest one.
\<close>

datatype goarch = Amd64 | Arm64

definition f64_to_int64 :: "goarch \<Rightarrow> int \<Rightarrow> 64 word" where
  "f64_to_int64 arch x =
     (if - (2 ^ 63) \<le> x \<and> x < 2 ^ 63 then word_of_int x
      else (case arch of
              Amd64 \<Rightarrow> 0x8000000000000000
            | Arm64 \<Rightarrow> (if x < 0 then 0x8000000000000000 else 0x7FFFFFFFFFFFFFFF)))"


section \<open>foundation.go\<close>

text \<open>
  The helpers of \<^verbatim>\<open>unnamed/part_000\<close> with the same names in lower case
  (\<^verbatim>\<open>bytesToCFData\<close>, \<^verbatim>\<open>cfDataToBytes\<close>, \<^verbatim>\<open>stringToCFString\<close>, \<^verbatim>\<open>cfStringToString\<close>,
  \<^verbatim>\<open>mapToCFDictionary\<close>, \<^verbatim>\<open>release\<close>, \<^verbatim>\<open>timeToCFDate\<close>, \<^verbatim>\<open>cfDateToTime\<close>) have the same text
  as the ones here and are not repeated.
\<close>

definition BytesToCFData :: "byte list \<Rightarrow> cf_state \<Rightarrow> (failure + cfref) \<times> cf_state" where
  "BytesToCFData b s =
     (if 4294967295 < length b then (Inl (Err DataTooLarge), s)
      else (case cf_create (CFData b) s of
              (cfData, s') \<Rightarrow>
                if cfData = NilCFType then (Inl (Err CFDataCreateFailed), s')
                else (Inr cfData, s')))"

text \<open>
  \<^verbatim>\<open>CFDataToBytes\<close> passes the length as \<^verbatim>\<open>C.int\<close>, which keeps its low 32 bits, read
  as a signed number; \<^verbatim>\<open>C.GoBytes\<close> panics on a negative length and copies that many
  bytes otherwise.
\<close>

fun CFDataToBytes :: "cfref \<Rightarrow> failure + byte list" where
  "CFDataToBytes (Ref a (CFData b)) =
     (let n = sint (word_of_int (int (length b)) :: 32 word)
      in if n < 0 then Inl (Crash GoBytesLength) else Inr (take (nat n) b))"
| "CFDataToBytes NilCFType = Inl (Crash CFNullArgument)"
| "CFDataToBytes (Ref a obj) = Inl (Crash CFWrongType)"

definition StringToCFString :: "string \<Rightarrow> cf_state \<Rightarrow> (failure + cfref) \<times> cf_state" where
  "StringToCFString str s =
     (case CFStringCreateWithCString (c_string str) s of
        (cfStr, s') \<Rightarrow>
          if cfStr = NilCFType then (Inl (Err CFStringCreateFailed), s')
          else (Inr cfStr, s'))"

fun CFStringToString :: "cfref \<Rightarrow> failure + string" where
  "CFStringToString (Ref a (CFString str)) = Inr (if length str = 0 then [] else str)"
| "CFStringToString NilCFType = Inl (Crash CFNullArgument)"
| "CFStringToString (Ref a obj) = Inl (Crash CFWrongType)"

definition MapToCFDictionary ::
  "(cfref \<times> cfref) list \<Rightarrow> cf_state \<Rightarrow> (failure + cfref) \<times> cf_state" where
  \<comment> \<open>\<^verbatim>\<open>&keys[0]\<close> is evaluated before the call and panics when the map is empty\<close>
  "MapToCFDictionary m s =
     (let keys = map fst m; values = map snd m in
      if keys = [] then (Inl (Crash IndexOutOfRange), s)
      else (case CFDictionaryCreate keys values s of
              (Inl f, s') \<Rightarrow> (Inl f, s')
            | (Inr cfDict, s') \<Rightarrow>
                if cfDict = NilCFType then (Inl (Err CFDictionaryCreateFailed), s')
                else (Inr cfDict, s')))"

definition Release :: "cfref \<Rightarrow> cf_state \<Rightarrow> cf_state" where
  "Release ref s = (if ref \<noteq> NilCFType then CFRelease ref s else s)"

definition TimeToCFDate :: "gotime \<Rightarrow> cf_state \<Rightarrow> cfref \<times> cf_state" where
  "TimeToCFDate t s =
     (let seconds = f64_round (f64_round (sint (unix t)) - 978307200)
      in cf_create (CFDate seconds) s)"

fun CFDateToTime :: "goarch \<Rightarrow> cfref \<Rightarrow> failure + gotime" where
  "CFDateToTime arch (Ref a (CFDate seconds)) =
     Inr (Time (f64_to_int64 arch (f64_round (seconds + 978307200))) 0 UTC)"
| "CFDateToTime arch NilCFType = Inl (Crash CFNullArgument)"
| "CFDateToTime arch (Ref a obj) = Inl (Crash CFWrongType)"

definition CFNumberCreate :: "number_type \<Rightarrow> 64 word \<Rightarrow> cf_state \<Rightarrow> cfref \<times> cf_state" where
  "CFNumberCreate t v s = cf_create (CFNumber t v) s"

text \<open>The inner type switch of \<^verbatim>\<open>ConvertToCFType\<close>; both variables start at zero.\<close>

fun int64Value :: "dyn \<Rightarrow> 64 word" where
  "int64Value (VInt num) = num"
| "int64Value (VInt8 num) = scast num"
| "int64Value (VInt16 num) = scast num"
| "int64Value (VInt32 num) = scast num"
| "int64Value (VInt64 num) = num"
| "int64Value (VUint num) = num"
| "int64Value (VUint8 num) = ucast num"
| "int64Value (VUint16 num) = ucast num"
| "int64Value (VUint32 num) = ucast num"
| "int64Value (VUint64 num) = num"
| "int64Value _ = 0"

fun floatValue :: "dyn \<Rightarrow> float64" where
  "floatValue (VFloat32 num) = num"
| "floatValue (VFloat64 num) = num"
| "floatValue _ = 0"

fun is_integer :: "dyn \<Rightarrow> bool" where
  "is_integer (VInt _) = True"
| "is_integer (VInt8 _) = True"
| "is_integer (VInt16 _) = True"
| "is_integer (VInt32 _) = True"
| "is_integer (VInt64 _) = True"
| "is_integer (VUint _) = True"
| "is_integer (VUint8 _) = True"
| "is_integer (VUint16 _) = True"
| "is_integer (VUint32 _) = True"
| "is_integer (VUint64 _) = True"
| "is_integer _ = False"

fun is_float :: "dyn \<Rightarrow> bool" where
  "is_float (VFloat32 _) = True"
| "is_float (VFloat64 _) = True"
| "is_float _ = False"

definition number_to_CFNumber :: "dyn \<Rightarrow> cf_state \<Rightarrow> cfref \<times> cf_state" where
  "number_to_CFNumber v s =
     (if \<not> f64_is_zero (floatValue v) then CFNumberCreate kCFNumberDoubleType (floatValue v) s
      else CFNumberCreate kCFNumberLongLongType (int64Value v) s)"

text \<open>
  \<^verbatim>\<open>ConvertToCFType\<close> with its two loops: \<open>array_items\<close> is the loop over the slice
  (\<open>i\<close> the index of the first item of the list), \<open>map_entries\<close> the loop of
  \<^verbatim>\<open>ConvertMapToCFDictionary\<close> filling \<^verbatim>\<open>m\<close>, whose keys are fresh references.
\<close>

fun ConvertToCFType :: "dyn \<Rightarrow> cf_state \<Rightarrow> (failure + cfref) \<times> cf_state"
and array_items :: "dyn list \<Rightarrow> nat \<Rightarrow> cf_state \<Rightarrow> (failure + cfref list) \<times> cf_state"
and map_entries :: "(string \<times> dyn) list \<Rightarrow> cf_state \<Rightarrow> (failure + (cfref \<times> cfref) list) \<times> cf_state"
and ConvertMapToCFDictionary :: "(string \<times> dyn) list \<Rightarrow> cf_state \<Rightarrow> (failure + cfref) \<times> cf_state"
where
  "ConvertToCFType (VString v) s = StringToCFString v s"
| "ConvertToCFType (VBytes v) s = BytesToCFData v s"
| "ConvertToCFType (VBool v) s = (Inr (if v then kCFBooleanTrue else kCFBooleanFalse), s)"
| "ConvertToCFType (VTime v) s = (case TimeToCFDate v s of (d, s') \<Rightarrow> (Inr d, s'))"
| "ConvertToCFType (VSlice v) s =
     (case array_items v 0 s of
        (Inl f, s') \<Rightarrow> (Inl f, s')
      | (Inr cfValues, s') \<Rightarrow>
          if cfValues = [] then (Inl (Crash IndexOutOfRange), s')
          else CFArrayCreate cfValues s')"
| "ConvertToCFType (VMap v) s =
     (case ConvertMapToCFDictionary v s of
        (Inl (Err err), s') \<Rightarrow> (Inl (Err (MapToCFDictionaryError err)), s')
      | (Inl (Crash c), s') \<Rightarrow> (Inl (Crash c), s')
      | (Inr cfDict, s') \<Rightarrow> (Inr cfDict, s'))"
| "ConvertToCFType v s =
     (if is_integer v \<or> is_float v then (case number_to_CFNumber v s of (n, s') \<Rightarrow> (Inr n, s'))
      else (Inl (Err (UnsupportedType (type_name v))), s))"
| "array_items [] i s = (Inr [], s)"
| "array_items (item # items) i s =
     (case ConvertToCFType item s of
        (Inl (Err err), s') \<Rightarrow> (Inl (Err (ArrayItemError i err)), s')
      | (Inl (Crash c), s') \<Rightarrow> (Inl (Crash c), s')
      | (Inr cfItem, s') \<Rightarrow>
          (case array_items items (Suc i) s' of
             (Inl f, s'') \<Rightarrow> (Inl f, s'')
           | (Inr cfValues, s'') \<Rightarrow> (Inr (cfItem # cfValues), s'')))"
| "map_entries [] s = (Inr [], s)"
| "map_entries ((key, val) # attr) s =
     (case StringToCFString key s of
        (Inl (Err err), s1) \<Rightarrow> (Inl (Err (KeyToCFStringError err)), s1)
      | (Inl (Crash c), s1) \<Rightarrow> (Inl (Crash c), s1)
      | (Inr keyRef, s1) \<Rightarrow>
          (case ConvertToCFType val s1 of
             (Inl (Err err), s2) \<Rightarrow> (Inl (Err (MapValueError key err)), CFRelease keyRef s2)
           | (Inl (Crash c), s2) \<Rightarrow> (Inl (Crash c), s2)
           | (Inr valueRef, s2) \<Rightarrow>
               (case map_entries attr s2 of
                  (Inl f, s3) \<Rightarrow> (Inl f, s3)
                | (Inr m, s3) \<Rightarrow> (Inr ((keyRef, valueRef) # m), s3))))"
| "ConvertMapToCFDictionary attr s =
     (case map_entries attr s of
        (Inl f, s') \<Rightarrow> (Inl f, s')
      | (Inr m, s') \<Rightarrow>
          (case MapToCFDictionary m s' of
             (Inl (Err err), s'') \<Rightarrow>
               (Inl (Err err), fold (\<lambda>(k, v) st. CFRelease v (CFRelease k st)) m s'')
           | (Inl (Crash c), s'') \<Rightarrow> (Inl (Crash c), s'')
           | (Inr cfDict, s'') \<Rightarrow> (Inr cfDict, s'')))"


text \<open>
  \<^verbatim>\<open>ConvertFromCFType\<close> of \<^verbatim>\<open>foundation.go\<close>: the switch on \<^verbatim>\<open>CFGetTypeID\<close> has cases
  for string, data, boolean, date, number and array, and a default.
\<close>

definition integer_number_types :: "number_type list" where
  "integer_number_types =
     [kCFNumberSInt8Type, kCFNumberSInt16Type, kCFNumberSInt32Type, kCFNumberSInt64Type,
      kCFNumberCharType, kCFNumberShortType, kCFNumberIntType, kCFNumberLongType,
      kCFNumberLongLongType, kCFNumberCFIndexType, kCFNumberNSIntegerType]"

definition float_number_types :: "number_type list" where
  "float_number_types =
     [kCFNumberFloat32Type, kCFNumberFloat64Type, kCFNumberFloatType, kCFNumberDoubleType]"

fun ConvertFromCFType :: "goarch \<Rightarrow> cfref \<Rightarrow> failure + dyn"
and from_array_items :: "goarch \<Rightarrow> cfref list \<Rightarrow> nat \<Rightarrow> failure + dyn list" where
  "ConvertFromCFType arch NilCFType = Inl (Crash CFNullArgument)"
| "ConvertFromCFType arch (Ref a (CFString str)) =
     (case CFStringToString (Ref a (CFString str)) of
        Inl f \<Rightarrow> Inl f | Inr v \<Rightarrow> Inr (VString v))"
| "ConvertFromCFType arch (Ref a (CFData b)) =
     (case CFDataToBytes (Ref a (CFData b)) of
        Inl f \<Rightarrow> Inl f | Inr v \<Rightarrow> Inr (VBytes v))"
| "ConvertFromCFType arch (Ref a (CFBoolean b)) = Inr (VBool b)"
| "ConvertFromCFType arch (Ref a (CFDate seconds)) =
     (case CFDateToTime arch (Ref a (CFDate seconds)) of
        Inl f \<Rightarrow> Inl f | Inr v \<Rightarrow> Inr (VTime v))"
| "ConvertFromCFType arch (Ref a (CFNumber numberType v)) =
     (if numberType \<in> set integer_number_types then Inr (VInt64 v)
      else if numberType \<in> set float_number_types then Inr (VFloat64 v)
      else Inl (Err UnsupportedCFNumberType))"
| "ConvertFromCFType arch (Ref a (CFArray items)) =
     (case from_array_items arch items 0 of
        Inl f \<Rightarrow> Inl f | Inr result \<Rightarrow> Inr (VSlice result))"
| "ConvertFromCFType arch (Ref a obj) = Inl (Err UnsupportedCFTypeRef)"
| "from_array_items arch [] i = Inr []"
| "from_array_items arch (item # items) i =
     (case ConvertFromCFType arch item of
        Inl (Err err) \<Rightarrow> Inl (Err (ArrayItemError i err))
      | Inl (Crash c) \<Rightarrow> Inl (Crash c)
      | Inr convertedItem \<Rightarrow>
          (case from_array_items arch items (Suc i) of
             Inl f \<Rightarrow> Inl f | Inr result \<Rightarrow> Inr (convertedItem # result)))"

section \<open>unnamed/part\_000\<close>

text \<open>
  The second copy of the conversion code. \<^verbatim>\<open>convertToCFType\<close> returns the NULL reference
  for \<^verbatim>\<open>nil\<close>, reads integers with \<^verbatim>\<open>reflect.ValueOf(num).Int()\<close> (which panics on the
  unsigned kinds), decides the number's storage by the Go type, and handles slices and maps
  in its default case; \<^verbatim>\<open>convertFromCFType\<close> returns integers as \<^verbatim>\<open>int\<close> and has a
  dictionary case.
\<close>

fun is_unsigned :: "dyn \<Rightarrow> bool" where
  "is_unsigned (VUint _) = True"
| "is_unsigned (VUint8 _) = True"
| "is_unsigned (VUint16 _) = True"
| "is_unsigned (VUint32 _) = True"
| "is_unsigned (VUint64 _) = True"
| "is_unsigned _ = False"

fun convertToCFType :: "dyn \<Rightarrow> cf_state \<Rightarrow> (failure + cfref) \<times> cf_state"
and convertSliceToCFArray :: "dyn list \<Rightarrow> cf_state \<Rightarrow> (failure + cfref) \<times> cf_state"
and slice_items :: "dyn list \<Rightarrow> nat \<Rightarrow> cf_state \<Rightarrow> (failure + cfref list) \<times> cf_state"
and map_items :: "(string \<times> dyn) list \<Rightarrow> cf_state \<Rightarrow> (failure + (cfref \<times> cfref) list) \<times> cf_state"
and convertMapToCFDictionary :: "(string \<times> dyn) list \<Rightarrow> cf_state \<Rightarrow> (failure + cfref) \<times> cf_state"
where
  "convertToCFType VNil s = (Inr NilCFType, s)"
| "convertToCFType (VString v) s = StringToCFString v s"
| "convertToCFType (VBytes v) s = BytesToCFData v s"
| "convertToCFType (VBool v) s = (Inr (if v then kCFBooleanTrue else kCFBooleanFalse), s)"
| "convertToCFType (VTime v) s = (case TimeToCFDate v s of (d, s') \<Rightarrow> (Inr d, s'))"
| "convertToCFType (VSlice v) s = convertSliceToCFArray v s"
| "convertToCFType (VSliceOf t v) s = convertSliceToCFArray v s"
| "convertToCFType (VMap v) s = convertMapToCFDictionary v s"
| "convertToCFType (VStrKeyMap t) s = (Inl (Crash InterfaceConversion), s)"
| "convertToCFType (VOther t) s = (Inl (Err (UnsupportedType t)), s)"
| "convertToCFType v s =
     (if is_float v
      then (case CFNumberCreate kCFNumberDoubleType (floatValue v) s of (n, s') \<Rightarrow> (Inr n, s'))
      else if is_unsigned v then (Inl (Crash ReflectIntOnUint), s)
      else (case CFNumberCreate kCFNumberLongLongType (int64Value v) s of (n, s') \<Rightarrow> (Inr n, s')))"
| "convertSliceToCFArray sliceValue s =
     (case slice_items sliceValue 0 s of
        (Inl f, s') \<Rightarrow> (Inl f, s')
      | (Inr cfValues, s') \<Rightarrow>
          if cfValues = [] then (Inl (Crash IndexOutOfRange), s')
          else CFArrayCreate cfValues s')"
| "slice_items [] i s = (Inr [], s)"
| "slice_items (item # items) i s =
     (case convertToCFType item s of
        (Inl (Err err), s') \<Rightarrow> (Inl (Err (ArrayItemError i err)), s')
      | (Inl (Crash c), s') \<Rightarrow> (Inl (Crash c), s')
      | (Inr cfItem, s') \<Rightarrow>
          (case slice_items items (Suc i) s' of
             (Inl f, s'') \<Rightarrow> (Inl f, s'')
           | (Inr cfValues, s'') \<Rightarrow> (Inr (cfItem # cfValues), s'')))"
| "map_items [] s = (Inr [], s)"
| "map_items ((key, val) # attr) s =
     (case StringToCFString key s of
        (Inl (Err err), s1) \<Rightarrow> (Inl (Err (KeyToCFStringError err)), s1)
      | (Inl (Crash c), s1) \<Rightarrow> (Inl (Crash c), s1)
      | (Inr keyRef, s1) \<Rightarrow>
          (case convertToCFType val s1 of
             (Inl (Err err), s2) \<Rightarrow> (Inl (Err (MapValueError key err)), CFRelease keyRef s2)
           | (Inl (Crash c), s2) \<Rightarrow> (Inl (Crash c), s2)
           | (Inr valueRef, s2) \<Rightarrow>
               (case map_items attr s2 of
                  (Inl f, s3) \<Rightarrow> (Inl f, s3)
                | (Inr m, s3) \<Rightarrow> (Inr ((keyRef, valueRef) # m), s3))))"
| "convertMapToCFDictionary attr s =
     (case map_items attr s of
        (Inl f, s') \<Rightarrow> (Inl f, s')
      | (Inr m, s') \<Rightarrow>
          (case MapToCFDictionary m s' of
             (Inl (Err err), s'') \<Rightarrow>
               (Inl (Err err), fold (\<lambda>(k, v) st. CFRelease v (CFRelease k st)) m s'')
           | (Inl (Crash c), s'') \<Rightarrow> (Inl (Crash c), s'')
           | (Inr cfDict, s'') \<Rightarrow> (Inr cfDict, s'')))"

definition go_map_set :: "string \<Rightarrow> dyn \<Rightarrow> (string \<times> dyn) list \<Rightarrow> (string \<times> dyn) list" where
  \<comment> \<open>\<^verbatim>\<open>result[key] = value\<close>\<close>
  "go_map_set key v result =
     (if key \<in> set (map fst result)
      then map (\<lambda>(k, old). if k = key then (k, v) else (k, old)) result
      else result @ [(key, v)])"

text \<open>
  \<^verbatim>\<open>convertFromCFType\<close>; \<open>dict_items\<close> is the loop of its dictionary case over the
  entries \<^verbatim>\<open>CFDictionaryGetKeysAndValues\<close> hands back, \<open>result\<close> the Go map built so far.
  \<^verbatim>\<open>&keys[0]\<close> panics when the dictionary is empty. A key is cast to \<^verbatim>\<open>CFStringRef\<close> and
  passed to \<^verbatim>\<open>cfStringToString\<close> without a look at its type.
\<close>

fun convertFromCFType :: "goarch \<Rightarrow> cfref \<Rightarrow> failure + dyn"
and from_slice_items :: "goarch \<Rightarrow> cfref list \<Rightarrow> nat \<Rightarrow> failure + dyn list"
and dict_items :: "goarch \<Rightarrow> (cfref \<times> cfref) list \<Rightarrow> (string \<times> dyn) list \<Rightarrow> failure + (string \<times> dyn) list"
where
  "convertFromCFType arch NilCFType = Inl (Crash CFNullArgument)"
| "convertFromCFType arch (Ref a (CFString str)) =
     (case CFStringToString (Ref a (CFString str)) of
        Inl f \<Rightarrow> Inl f | Inr v \<Rightarrow> Inr (VString v))"
| "convertFromCFType arch (Ref a (CFData b)) =
     (case CFDataToBytes (Ref a (CFData b)) of
        Inl f \<Rightarrow> Inl f | Inr v \<Rightarrow> Inr (VBytes v))"
| "convertFromCFType arch (Ref a (CFBoolean b)) = Inr (VBool b)"
| "convertFromCFType arch (Ref a (CFDate seconds)) =
     (case CFDateToTime arch (Ref a (CFDate seconds)) of
        Inl f \<Rightarrow> Inl f | Inr v \<Rightarrow> Inr (VTime v))"
| "convertFromCFType arch (Ref a (CFNumber numberType v)) =
     (if numberType \<in> set integer_number_types then Inr (VInt v)
      else if numberType \<in> set float_number_types then Inr (VFloat64 v)
      else Inl (Err UnsupportedCFNumberType))"
| "convertFromCFType arch (Ref a (CFArray items)) =
     (case from_slice_items arch items 0 of
        Inl f \<Rightarrow> Inl f | Inr result \<Rightarrow> Inr (VSlice result))"
| "convertFromCFType arch (Ref a (CFDictionary kvs)) =
     (if kvs = [] then Inl (Crash IndexOutOfRange)
      else (case dict_items arch kvs [] of
              Inl f \<Rightarrow> Inl f | Inr result \<Rightarrow> Inr (VMap result)))"
| "convertFromCFType arch (Ref a CFOther) = Inl (Err UnsupportedCFTypeRef)"
| "from_slice_items arch [] i = Inr []"
| "from_slice_items arch (item # items) i =
     (case convertFromCFType arch item of
        Inl (Err err) \<Rightarrow> Inl (Err (ArrayItemError i err))
      | Inl (Crash c) \<Rightarrow> Inl (Crash c)
      | Inr convertedItem \<Rightarrow>
          (case from_slice_items arch items (Suc i) of
             Inl f \<Rightarrow> Inl f | Inr result \<Rightarrow> Inr (convertedItem # result)))"
| "dict_items arch [] result = Inr result"
| "dict_items arch ((k, v) # kvs) result =
     (case CFStringToString k of
        Inl f \<Rightarrow> Inl f
      | Inr key \<Rightarrow>
          (case convertFromCFType arch v of
             Inl (Err err) \<Rightarrow> Inl (Err (DictValueError key err))
           | Inl (Crash c) \<Rightarrow> Inl (Crash c)
           | Inr val \<Rightarrow> dict_items arch kvs (go_map_set key val result)))"


section \<open>Set and Get\<close>

record PreferenceScope =
  User :: string
  Host :: string

definition CurrentUser :: string where "CurrentUser = ''kCFPreferencesCurrentUser''"
definition AnyUser :: string where "AnyUser = ''kCFPreferencesAnyUser''"
definition CurrentHost :: string where "CurrentHost = ''kCFPreferencesCurrentHost''"
definition AnyHost :: string where "AnyHost = ''kCFPreferencesAnyHost''"

definition CurrentUserCurrentHost :: PreferenceScope where
  "CurrentUserCurrentHost = \<lparr> User = CurrentUser, Host = CurrentHost \<rparr>"

definition CurrentUserAnyHost :: PreferenceScope where
  "CurrentUserAnyHost = \<lparr> User = CurrentUser, Host = AnyHost \<rparr>"

text \<open>
  The preferences store, keyed by application, user, host and key. It holds a reference
  of its own to each value. \<^verbatim>\<open>CFPreferencesSetValue\<close> with a NULL value removes the key.
\<close>

fun string_of :: "cfref \<Rightarrow> string" where
  "string_of (Ref a (CFString str)) = str"
| "string_of _ = []"

definition CFPreferencesSetValue ::
  "cfref \<Rightarrow> cfref \<Rightarrow> cfref \<Rightarrow> string \<Rightarrow> string \<Rightarrow> cf_state \<Rightarrow> cf_state" where
  "CFPreferencesSetValue cKey cValue cAppID userName hostName s =
     (let slot = (string_of cAppID, userName, hostName, string_of cKey);
          s1 = cf_retain cValue s;
          s2 = (case prefs s1 slot of None \<Rightarrow> s1 | Some old \<Rightarrow> cf_drop old s1)
      in s2\<lparr> prefs := (prefs s2)(slot := (if cValue = NilCFType then None else Some cValue)) \<rparr>)"

definition CFPreferencesCopyValue ::
  "cfref \<Rightarrow> cfref \<Rightarrow> string \<Rightarrow> string \<Rightarrow> cf_state \<Rightarrow> cfref \<times> cf_state" where
  "CFPreferencesCopyValue cKey cAppID userName hostName s =
     (case prefs s (string_of cAppID, userName, hostName, string_of cKey) of
        None \<Rightarrow> (NilCFType, s)
      | Some v \<Rightarrow> (v, cf_retain v s))"

text \<open>
  \<^verbatim>\<open>Set(key, value, applicationID, scope)\<close>. The repository has it twice with the same
  text, once over the exported helpers of \<^verbatim>\<open>foundation.go\<close> (\<^verbatim>\<open>unnamed/part_001\<close>) and
  once over the unexported ones of \<^verbatim>\<open>unnamed/part_000\<close>; \<open>convert\<close> is the converter it
  calls. The deferred \<^verbatim>\<open>Release\<close> calls run in reverse order on every return, and on a
  panic. The result is the returned \<^verbatim>\<open>error\<close> (\<open>None\<close> for \<^verbatim>\<open>nil\<close>) or the panic.
\<close>

definition Set_with ::
  "(dyn \<Rightarrow> cf_state \<Rightarrow> (failure + cfref) \<times> cf_state) \<Rightarrow>
   string \<Rightarrow> dyn \<Rightarrow> string \<Rightarrow> PreferenceScope \<Rightarrow> cf_state \<Rightarrow> failure option \<times> cf_state" where
  "Set_with convert key val applicationID scope s =
     (case StringToCFString key s of
        (Inl (Err err), s1) \<Rightarrow> (Some (Err (SetKeyError err)), s1)
      | (Inl (Crash c), s1) \<Rightarrow> (Some (Crash c), s1)
      | (Inr cKey, s1) \<Rightarrow>
          (case convert val s1 of
             (Inl (Err err), s2) \<Rightarrow> (Some (Err (SetValueError err)), Release cKey s2)
           | (Inl (Crash c), s2) \<Rightarrow> (Some (Crash c), Release cKey s2)
           | (Inr cValue, s2) \<Rightarrow>
               (let release_value = (\<lambda>st. if cValue \<noteq> NilCFType then Release cValue st else st)
                in case StringToCFString applicationID s2 of
                     (Inl (Err err), s3) \<Rightarrow>
                       (Some (Err (SetAppIDError err)), Release cKey (release_value s3))
                   | (Inl (Crash c), s3) \<Rightarrow> (Some (Crash c), Release cKey (release_value s3))
                   | (Inr cAppID, s3) \<Rightarrow>
                       (let deferred = (\<lambda>st. Release cKey (release_value (Release cAppID st)))
                        in if User scope \<noteq> CurrentUser \<and> User scope \<noteq> AnyUser
                           then (Some (Err InvalidUserType), deferred s3)
                           else if Host scope \<noteq> CurrentHost \<and> Host scope \<noteq> AnyHost
                           then (Some (Err InvalidHostType), deferred s3)
                           else (let s4 = CFPreferencesSetValue cKey cValue cAppID
                                            (User scope) (Host scope) s3
                                 in if \<not> sync_ok s4 then (Some (Err SynchronizeFailed), deferred s4)
                                    else (None, deferred s4))))))"

definition Set_exported ::
  "string \<Rightarrow> dyn \<Rightarrow> string \<Rightarrow> PreferenceScope \<Rightarrow> cf_state \<Rightarrow> failure option \<times> cf_state" where
  "Set_exported = Set_with ConvertToCFType"

definition Set_unexported ::
  "string \<Rightarrow> dyn \<Rightarrow> string \<Rightarrow> PreferenceScope \<Rightarrow> cf_state \<Rightarrow> failure option \<times> cf_state" where
  "Set_unexported = Set_with convertToCFType"

text \<open>\<^verbatim>\<open>Get(key, applicationID, scope)\<close>, over the decoder \<open>convert\<close> it calls.\<close>

definition Get_with ::
  "(cfref \<Rightarrow> failure + dyn) \<Rightarrow>
   string \<Rightarrow> string \<Rightarrow> PreferenceScope \<Rightarrow> cf_state \<Rightarrow> (failure + dyn) \<times> cf_state" where
  "Get_with convert key applicationID scope s =
     (case StringToCFString key s of
        (Inl (Err err), s1) \<Rightarrow> (Inl (Err (SetKeyError err)), s1)
      | (Inl (Crash c), s1) \<Rightarrow> (Inl (Crash c), s1)
      | (Inr cKey, s1) \<Rightarrow>
          (case StringToCFString applicationID s1 of
             (Inl (Err err), s2) \<Rightarrow> (Inl (Err (SetAppIDError err)), Release cKey s2)
           | (Inl (Crash c), s2) \<Rightarrow> (Inl (Crash c), Release cKey s2)
           | (Inr cAppID, s2) \<Rightarrow>
               (let deferred = (\<lambda>st. Release cKey (Release cAppID st))
                in if User scope \<noteq> CurrentUser \<and> User scope \<noteq> AnyUser
                   then (Inl (Err InvalidUserType), deferred s2)
                   else if Host scope \<noteq> CurrentHost \<and> Host scope \<noteq> AnyHost
                   then (Inl (Err InvalidHostType), deferred s2)
                   else (case CFPreferencesCopyValue cKey cAppID (User scope) (Host scope) s2 of
                           (v, s3) \<Rightarrow>
                             if v = NilCFType then (Inr VNil, deferred s3)
                             else (convert v, deferred (Release v s3))))))"

definition Get_exported ::
  "goarch \<Rightarrow> string \<Rightarrow> string \<Rightarrow> PreferenceScope \<Rightarrow> cf_state \<Rightarrow> (failure + dyn) \<times> cf_state" where
  "Get_exported arch = Get_with (ConvertFromCFType arch)"

definition Get_unexported ::
  "goarch \<Rightarrow> string \<Rightarrow> string \<Rightarrow> PreferenceScope \<Rightarrow> cf_state \<Rightarrow> (failure + dyn) \<times> cf_state" where
  "Get_unexported arch = Get_with (convertFromCFType arch)"


section \<open>The number a Go integer denotes\<close>

text \<open>
  Used to state what the widening to \<^verbatim>\<open>int64\<close> does to a value: a signed type is read in
  two's complement, an unsigned type as it is.
\<close>

fun go_int_value :: "dyn \<Rightarrow> int" where
  "go_int_value (VInt num) = sint num"
| "go_int_value (VInt8 num) = sint num"
| "go_int_value (VInt16 num) = sint num"
| "go_int_value (VInt32 num) = sint num"
| "go_int_value (VInt64 num) = sint num"
| "go_int_value (VUint num) = uint num"
| "go_int_value (VUint8 num) = uint num"
| "go_int_value (VUint16 num) = uint num"
| "go_int_value (VUint32 num) = uint num"
| "go_int_value (VUint64 num) = uint num"
| "go_int_value _ = 0"

section \<open>The values and the normal forms of the round trip\<close>

text \<open>
  Used to state where the round trip holds. \<open>round_trip_value\<close> holds of the values built from
  booleans, integers, floats other than zero, strings that are well-formed UTF-8 without a
  zero byte, byte slices of at most \<open>2 ^ 31 - 1\<close> bytes, timestamps whose Unix seconds
  lie strictly between \<open>- (2 ^ 53) + 978307200\<close> and \<open>2 ^ 53\<close>, and non-empty
  \<^verbatim>\<open>[]interface{}\<close> slices of such values. \<open>normalized\<close> is the value as it comes back:
  an integer as the \<^verbatim>\<open>int64\<close> it wraps to, a \<^verbatim>\<open>float32\<close> as the \<^verbatim>\<open>float64\<close> of the same
  value, a timestamp as the UTC time of the same second.
\<close>

fun round_trip_value :: "dyn \<Rightarrow> bool"
and round_trip_values :: "dyn list \<Rightarrow> bool" where
  "round_trip_value (VString str) = (CHR 0x00 \<notin> set str \<and> valid_utf8 (map of_char str))"
| "round_trip_value (VBytes b) = (length b \<le> 2147483647)"
| "round_trip_value (VBool b) = True"
| "round_trip_value (VTime t) = (- (2 ^ 53) + 978307200 < sint (unix t) \<and> sint (unix t) < 2 ^ 53)"
| "round_trip_value (VFloat32 f) = (\<not> f64_is_zero f)"
| "round_trip_value (VFloat64 f) = (\<not> f64_is_zero f)"
| "round_trip_value (VSlice vs) = (vs \<noteq> [] \<and> round_trip_values vs)"
| "round_trip_value v = is_integer v"
| "round_trip_values [] = True"
| "round_trip_values (v # vs) = (round_trip_value v \<and> round_trip_values vs)"

fun normalized :: "dyn \<Rightarrow> dyn" where
  "normalized (VTime t) = VTime (Time (unix t) 0 UTC)"
| "normalized (VFloat32 f) = VFloat64 f"
| "normalized (VSlice vs) = VSlice (map normalized vs)"
| "normalized v = (if is_integer v then VInt64 (word_of_int (go_int_value v)) else v)"

section \<open>Evaluation rules\<close>

declare f64_exponent.simps [simp del]

lemmas cf_calls =
  StringToCFString_def CFStringCreateWithCString_def c_string_def cf_create_def
  MapToCFDictionary_def CFDictionaryCreate_def CFArrayCreate_def BytesToCFData_def
  TimeToCFDate_def CFNumberCreate_def number_to_CFNumber_def f64_is_zero_def
  CFRelease_def Release_def kCFBooleanTrue_def kCFBooleanFalse_def is_constant_object_def
  utf8_two_def utf8_three_def utf8_four_def utf8_cont_def

lemmas string_calls =
  StringToCFString_def CFStringCreateWithCString_def c_string_def cf_create_def
  utf8_two_def utf8_three_def utf8_four_def utf8_cont_def

lemmas scope_names =
  CurrentUserCurrentHost_def CurrentUserAnyHost_def
  CurrentUser_def AnyUser_def CurrentHost_def AnyHost_def

lemma f64_exponent_small: "a < 2 ^ 53 \<Longrightarrow> f64_exponent a = 0"
  by (simp add: f64_exponent.simps)

lemma f64_exponent_step: "\<not> a < 2 ^ 53 \<Longrightarrow> f64_exponent a = Suc (f64_exponent (a div 2))"
  by (subst f64_exponent.simps) simp

lemma f64_round_exact: "\<bar>x\<bar> < 2 ^ 53 \<Longrightarrow> f64_round x = x"
  by (simp add: f64_round_def Let_def f64_exponent_small mult_sgn_abs)

text \<open>Dropping references touches nothing but the retain counts.\<close>

lemma cf_drop_frame:
  "released (cf_drop r s) = released s \<and> prefs (cf_drop r s) = prefs s
   \<and> next_addr (cf_drop r s) = next_addr s \<and> sync_ok (cf_drop r s) = sync_ok s"
  "released (cf_drop_all rs s) = released s \<and> prefs (cf_drop_all rs s) = prefs s
   \<and> next_addr (cf_drop_all rs s) = next_addr s \<and> sync_ok (cf_drop_all rs s) = sync_ok s"
  "released (cf_drop_entries kvs s) = released s \<and> prefs (cf_drop_entries kvs s) = prefs s
   \<and> next_addr (cf_drop_entries kvs s) = next_addr s
   \<and> sync_ok (cf_drop_entries kvs s) = sync_ok s"
  by (induction r s and rs s and kvs s rule: cf_drop_cf_drop_all_cf_drop_entries.induct)
     (auto split: cfobj.splits)

lemma Release_frame:
  "prefs (Release r s) = prefs s"
  "sync_ok (Release r s) = sync_ok s"
  "next_addr (Release r s) = next_addr s"
  by (simp_all add: Release_def CFRelease_def cf_drop_frame)

lemma Release_log: "r \<noteq> NilCFType \<Longrightarrow> released (Release r s) = released s @ [r]"
  by (simp add: Release_def CFRelease_def cf_drop_frame)

section \<open>Empty aggregates\<close>

text \<open>
  C10. Claim: encoding an empty ordered sequence or an empty string-keyed mapping returns
  a result or an error and never crashes. The code takes \<^verbatim>\<open>&cfValues[0]\<close>, respectively
  \<^verbatim>\<open>&keys[0]\<close>, of a slice of length zero: in both copies of the converter the call
  panics with an index out of range, in every state.
\<close>

theorem empty_aggregates_panic:
  "ConvertToCFType (VSlice []) s = (Inl (Crash IndexOutOfRange), s)
   \<and> ConvertToCFType (VMap []) s = (Inl (Crash IndexOutOfRange), s)
   \<and> convertToCFType (VSlice []) s = (Inl (Crash IndexOutOfRange), s)
   \<and> convertToCFType (VMap []) s = (Inl (Crash IndexOutOfRange), s)"
  by (simp add: MapToCFDictionary_def)


section \<open>The absent value\<close>

text \<open>
  C2. Claim: encoding Go \<^verbatim>\<open>nil\<close> returns the NULL reference without an error, so that
  \<^verbatim>\<open>Set\<close> with \<^verbatim>\<open>nil\<close> deletes the key. \<^verbatim>\<open>ConvertToCFType\<close> of \<^verbatim>\<open>foundation.go\<close> has
  no case for \<^verbatim>\<open>nil\<close>: the value falls to the default of the type switch and the call
  returns the error "unsupported type: <nil>". \<^verbatim>\<open>Set\<close> over it, with the key and the
  application of \<^verbatim>\<open>TestSetDeleteValue\<close>, returns that error wrapped and leaves the store
  as it was, in every state.
\<close>

theorem nil_is_an_error_in_foundation:
  "ConvertToCFType VNil s = (Inl (Err (UnsupportedType ''<nil>'')), s)
   \<and> fst (Set_exported ''TestSetDeleteKey'' VNil ''com.github.weswhet.mac_prefs.test''
          CurrentUserCurrentHost s)
       = Some (Err (SetValueError (UnsupportedType ''<nil>'')))
   \<and> prefs (snd (Set_exported ''TestSetDeleteKey'' VNil ''com.github.weswhet.mac_prefs.test''
          CurrentUserCurrentHost s))
       = prefs s"
  by (simp add: Set_exported_def Set_with_def string_calls Release_frame)

text \<open>
  The copy in \<^verbatim>\<open>unnamed/part_000\<close> does what the claim says: \<^verbatim>\<open>convertToCFType\<close> returns
  NULL for \<^verbatim>\<open>nil\<close>, and \<^verbatim>\<open>Set\<close> over it removes the key.
\<close>

lemma nil_deletes_the_key_in_part_000:
  "convertToCFType VNil s = (Inr NilCFType, s)
   \<and> (sync_ok s \<longrightarrow>
        fst (Set_unexported ''TestSetDeleteKey'' VNil ''com.github.weswhet.mac_prefs.test''
               CurrentUserCurrentHost s) = None)
   \<and> prefs (snd (Set_unexported ''TestSetDeleteKey'' VNil ''com.github.weswhet.mac_prefs.test''
               CurrentUserCurrentHost s))
        (''com.github.weswhet.mac_prefs.test'', CurrentUser, CurrentHost, ''TestSetDeleteKey'')
       = None"
  by (simp add: Set_unexported_def Set_with_def string_calls scope_names Let_def
        CFPreferencesSetValue_def Release_frame cf_drop_frame split: option.splits)

section \<open>Floating-point numbers\<close>

text \<open>
  C3. Claim: every float, zero included, is stored in a number object of a float subtype
  and decodes as a \<^verbatim>\<open>float64\<close>. \<^verbatim>\<open>ConvertToCFType\<close> of \<^verbatim>\<open>foundation.go\<close> chooses the
  storage by the test \<^verbatim>\<open>floatValue != 0\<close>: the floats +0 and -0 (of either width) are
  stored with \<^verbatim>\<open>kCFNumberLongLongType\<close> and the integer 0, and decode as the \<^verbatim>\<open>int64\<close> 0.
\<close>

theorem zero_float_stored_as_integer:
  "fst (ConvertToCFType (VFloat64 0) s)
     = Inr (Ref (next_addr s) (CFNumber kCFNumberLongLongType 0))
   \<and> fst (ConvertToCFType (VFloat32 0) s)
     = Inr (Ref (next_addr s) (CFNumber kCFNumberLongLongType 0))
   \<and> fst (ConvertToCFType (VFloat64 0x8000000000000000) s)
     = Inr (Ref (next_addr s) (CFNumber kCFNumberLongLongType 0))
   \<and> ConvertFromCFType arch (Ref (next_addr s) (CFNumber kCFNumberLongLongType 0)) = Inr (VInt64 0)"
  by (simp add: cf_calls integer_number_types_def)

text \<open>
  Every other float is stored as a double by \<^verbatim>\<open>foundation.go\<close>, and every float by
  \<^verbatim>\<open>unnamed/part_000\<close>, which switches on the Go type.
\<close>

lemma nonzero_floats_in_foundation:
  "is_float v \<Longrightarrow> \<not> f64_is_zero (floatValue v) \<Longrightarrow>
   fst (ConvertToCFType v s)
     = Inr (Ref (next_addr s) (CFNumber kCFNumberDoubleType (floatValue v)))
   \<and> ConvertFromCFType arch (Ref (next_addr s) (CFNumber kCFNumberDoubleType (floatValue v)))
     = Inr (VFloat64 (floatValue v))"
  by (cases v) (simp_all add: cf_calls integer_number_types_def float_number_types_def)

lemma floats_in_part_000:
  "is_float v \<Longrightarrow>
   fst (convertToCFType v s)
     = Inr (Ref (next_addr s) (CFNumber kCFNumberDoubleType (floatValue v)))
   \<and> convertFromCFType arch (Ref (next_addr s) (CFNumber kCFNumberDoubleType (floatValue v)))
     = Inr (VFloat64 (floatValue v))"
  by (cases v) (simp_all add: cf_calls integer_number_types_def float_number_types_def)

section \<open>Round trip\<close>

text \<open>
  C1. Claim: decoding the encoding of any supported value other than \<^verbatim>\<open>nil\<close> gives the
  value back, integers as \<^verbatim>\<open>int64\<close> and timestamps in whole seconds. For the map of the
  package's own test \<^verbatim>\<open>TestSet\<close> ("Set map value"), which the test expects back,
  \<^verbatim>\<open>ConvertToCFType\<close> builds a dictionary of three entries and \<^verbatim>\<open>ConvertFromCFType\<close>
  of \<^verbatim>\<open>foundation.go\<close>, which has no dictionary case, answers it with "unsupported
  CFTypeRef type" and no value.
\<close>

theorem test_map_does_not_round_trip:
  "fst (ConvertToCFType
          (VMap [(''name'', VString ''John''), (''age'', VInt 30), (''city'', VString ''New York'')])
          initial_state)
     = Inr (Ref 9 (CFDictionary
              [(Ref 3 (CFString ''name''), Ref 4 (CFString ''John'')),
               (Ref 5 (CFString ''age''), Ref 6 (CFNumber kCFNumberLongLongType 30)),
               (Ref 7 (CFString ''city''), Ref 8 (CFString ''New York''))]))
   \<and> ConvertFromCFType arch (Ref 9 (CFDictionary
              [(Ref 3 (CFString ''name''), Ref 4 (CFString ''John'')),
               (Ref 5 (CFString ''age''), Ref 6 (CFNumber kCFNumberLongLongType 30)),
               (Ref 7 (CFString ''city''), Ref 8 (CFString ''New York''))]))
     = Inl (Err UnsupportedCFTypeRef)"
  by (simp add: initial_state_def cf_calls)

text \<open>The decoder of \<^verbatim>\<open>unnamed/part_000\<close> gives the map back from the same dictionary.\<close>

lemma test_map_decoded_in_part_000:
  "convertFromCFType arch (Ref 9 (CFDictionary
              [(Ref 3 (CFString ''name''), Ref 4 (CFString ''John'')),
               (Ref 5 (CFString ''age''), Ref 6 (CFNumber kCFNumberLongLongType 30)),
               (Ref 7 (CFString ''city''), Ref 8 (CFString ''New York''))]))
     = Inr (VMap [(''name'', VString ''John''), (''age'', VInt 30), (''city'', VString ''New York'')])"
  by (simp add: go_map_set_def integer_number_types_def)

text \<open>
  The copy in \<^verbatim>\<open>foundation.go\<close> gives back every value built from booleans, integers,
  floats other than zero, NUL-free well-formed UTF-8 strings, byte slices of at most
  \<open>2 ^ 31 - 1\<close> bytes, timestamps within \<open>2 ^ 53\<close> seconds and non-empty slices of such
  values: for these \<^verbatim>\<open>ConvertToCFType\<close> succeeds in every state and
  \<^verbatim>\<open>ConvertFromCFType\<close> of its result is the value in normal form.
\<close>

lemma c_string_no_nul: "CHR 0x00 \<notin> set str \<Longrightarrow> c_string str = str"
  by (auto simp: c_string_def)

lemma string_round_trip:
  assumes "CHR 0x00 \<notin> set str" "valid_utf8 (map of_char str)"
  shows "\<exists>r s'. ConvertToCFType (VString str) s = (Inr r, s') \<and> r \<noteq> NilCFType
                \<and> ConvertFromCFType arch r = Inr (VString str)"
  using assms
  by (simp add: StringToCFString_def CFStringCreateWithCString_def cf_create_def c_string_no_nul)

lemma bytes_round_trip:
  assumes "length b \<le> 2147483647"
  shows "\<exists>r s'. ConvertToCFType (VBytes b) s = (Inr r, s') \<and> r \<noteq> NilCFType
                \<and> ConvertFromCFType arch r = Inr (VBytes b)"
proof -
  have "sint (word_of_nat (length b) :: 32 word) = int (length b)"
    using assms by (simp add: signed_of_nat signed_take_bit_int_eq_self)
  with assms show ?thesis
    by (simp add: BytesToCFData_def cf_create_def)
qed

lemma time_round_trip:
  assumes "- (2 ^ 53) + 978307200 < sint (unix t)" "sint (unix t) < 2 ^ 53"
  shows "\<exists>r s'. ConvertToCFType (VTime t) s = (Inr r, s') \<and> r \<noteq> NilCFType
                \<and> ConvertFromCFType arch r = Inr (VTime (Time (unix t) 0 UTC))"
proof -
  have a: "f64_round (sint (unix t)) = sint (unix t)"
    using assms by (intro f64_round_exact) linarith
  have b: "f64_round (sint (unix t) - 978307200) = sint (unix t) - 978307200"
    using assms by (intro f64_round_exact) linarith
  have c: "f64_to_int64 arch (sint (unix t)) = unix t"
    using assms by (simp add: f64_to_int64_def)
  show ?thesis
    by (simp add: TimeToCFDate_def cf_create_def a b c)
qed

lemma round_trip_aux:
  "round_trip_value v \<longrightarrow>
     (\<exists>r s'. ConvertToCFType v s = (Inr r, s') \<and> r \<noteq> NilCFType
              \<and> ConvertFromCFType arch r = Inr (normalized v))"
  "round_trip_values items \<longrightarrow>
     (\<exists>rs s'. array_items items i s = (Inr rs, s') \<and> length rs = length items
               \<and> NilCFType \<notin> set rs
               \<and> (\<forall>j. from_array_items arch rs j = Inr (map normalized items)))"
  "(attr :: (string \<times> dyn) list) = attr \<and> (s2 :: cf_state) = s2"
  "(attr' :: (string \<times> dyn) list) = attr' \<and> (s3 :: cf_state) = s3"
proof (induction v s and items i s and attr s2 and attr' s3
        rule: ConvertToCFType_array_items_map_entries_ConvertMapToCFDictionary.induct)
  case (1 v s)
  then show ?case using string_round_trip [of v s] by simp
next
  case (2 v s)
  then show ?case using bytes_round_trip [of v s] by simp
next
  case (3 v s)
  then show ?case by (simp add: kCFBooleanTrue_def kCFBooleanFalse_def)
next
  case (4 v s)
  then show ?case using time_round_trip [of v s] by auto
next
  case (5 v s)
  show ?case
  proof
    assume rt: "round_trip_value (VSlice v)"
    then have ne: "v \<noteq> []" and vs: "round_trip_values v" by simp_all
    from 5 vs obtain rs s' where
      it: "array_items v 0 s = (Inr rs, s')" and len: "length rs = length v"
      and nn: "NilCFType \<notin> set rs"
      and dec: "\<And>j. from_array_items arch rs j = Inr (map normalized v)"
      by blast
    from ne len have "rs \<noteq> []" by auto
    with it nn dec show "\<exists>r s'. ConvertToCFType (VSlice v) s = (Inr r, s') \<and> r \<noteq> NilCFType
              \<and> ConvertFromCFType arch r = Inr (normalized (VSlice v))"
      by (simp add: CFArrayCreate_def cf_create_def)
  qed
next
  case (6 v s)
  then show ?case by simp
next
  case (8 i s)
  then show ?case by simp
next
  case (9 item items i s)
  show ?case
  proof
    assume rt: "round_trip_values (item # items)"
    then have h: "round_trip_value item" and t: "round_trip_values items" by simp_all
    from 9(1) h obtain r s' where
      c: "ConvertToCFType item s = (Inr r, s')" and rn: "r \<noteq> NilCFType"
      and d: "ConvertFromCFType arch r = Inr (normalized item)"
      by blast
    from 9(2) [OF c [symmetric] refl] t obtain rs s'' where
      it: "array_items items (Suc i) s' = (Inr rs, s'')" and len: "length rs = length items"
      and nn: "NilCFType \<notin> set rs"
      and dec: "\<And>j. from_array_items arch rs j = Inr (map normalized items)"
      by blast
    from c rn d it len nn dec
    show "\<exists>rs s'. array_items (item # items) i s = (Inr rs, s')
            \<and> length rs = length (item # items) \<and> NilCFType \<notin> set rs
            \<and> (\<forall>j. from_array_items arch rs j = Inr (map normalized (item # items)))"
      by simp
  qed
qed (simp_all add: number_to_CFNumber_def CFNumberCreate_def cf_create_def f64_is_zero_def
       integer_number_types_def float_number_types_def)

lemma round_trip_in_foundation:
  "round_trip_value v \<Longrightarrow>
   \<exists>r s'. ConvertToCFType v s = (Inr r, s') \<and> ConvertFromCFType arch r = Inr (normalized v)"
  using round_trip_aux(1) [of v s] by blast

section \<open>Decoding dictionaries\<close>

text \<open>
  C4. Claim: decoding a dictionary whose keys are all strings gives a mapping with every
  key and every value decoded, or the error of the first value that fails.
  \<^verbatim>\<open>ConvertFromCFType\<close> of \<^verbatim>\<open>foundation.go\<close> answers every dictionary with "unsupported
  CFTypeRef type"; \<^verbatim>\<open>convertFromCFType\<close> of \<^verbatim>\<open>unnamed/part_000\<close> panics on the empty
  dictionary, whose \<^verbatim>\<open>&keys[0]\<close> is out of range.
\<close>

theorem dictionary_not_decoded:
  "ConvertFromCFType arch (Ref a (CFDictionary kvs)) = Inl (Err UnsupportedCFTypeRef)
   \<and> convertFromCFType arch (Ref a (CFDictionary [])) = Inl (Crash IndexOutOfRange)"
  by simp

text \<open>
  For a non-empty dictionary \<^verbatim>\<open>convertFromCFType\<close> of \<^verbatim>\<open>unnamed/part_000\<close> does what
  the claim says. When every key reads as a string and every value decodes, the result is
  a map with exactly the keys read, each bound to its decoded value (to the last one, should
  two keys read the same); otherwise the error of the first value that fails is returned,
  wrapped with its key.
\<close>

lemma in_keys: "(k, v) \<in> set m \<Longrightarrow> k \<in> fst ` set m"
  by force

lemma map_of_replaced:
  "map_of (map (\<lambda>(k, old). if k = key then (k, val) else (k, old)) m) x
     = (if x = key \<and> key \<in> fst ` set m then Some val else map_of m x)"
proof (induction m)
  case Nil
  then show ?case by simp
next
  case (Cons a m)
  then show ?case by (cases a) (auto dest: in_keys)
qed

lemma go_map_set_lookup: "map_of (go_map_set key val m) = (map_of m)(key \<mapsto> val)"
proof (cases "key \<in> set (map fst m)")
  case True
  then show ?thesis
    by (auto simp: go_map_set_def fun_eq_iff map_of_replaced)
next
  case False
  then have "map_of m key = None"
    by (simp add: map_of_eq_None_iff)
  with False show ?thesis
    by (auto simp: go_map_set_def fun_eq_iff map_add_def split: option.splits)
qed

lemma go_map_set_keys: "fst ` set (go_map_set key val m) = insert key (fst ` set m)"
  by (auto simp: go_map_set_def image_iff split: if_splits) force+

lemma dict_items_decodes:
  "list_all2 (\<lambda>(k, v) (key, val). CFStringToString k = Inr key \<and> convertFromCFType arch v = Inr val)
     kvs decoded \<Longrightarrow>
   dict_items arch kvs acc = Inr (fold (\<lambda>(key, val). go_map_set key val) decoded acc)"
proof (induction kvs decoded arbitrary: acc rule: list_all2_induct)
  case Nil
  then show ?case by simp
next
  case (Cons kv kvs d decoded)
  then show ?case by (cases kv; cases d) simp
qed

lemma fold_go_map_set_lookup:
  "map_of (fold (\<lambda>(key, val). go_map_set key val) decoded acc)
     = map_of acc ++ map_of (rev decoded)"
proof (induction decoded arbitrary: acc)
  case Nil
  then show ?case by simp
next
  case (Cons d decoded)
  obtain key val where d: "d = (key, val)" by (cases d)
  have "map_of (go_map_set key val acc) ++ map_of (rev decoded)
          = map_of acc ++ (map_of (rev decoded @ [(key, val)]))"
    by (simp add: go_map_set_lookup fun_eq_iff map_add_def split: option.splits)
  with Cons d show ?case by simp
qed

lemma fold_go_map_set_keys:
  "fst ` set (fold (\<lambda>(key, val). go_map_set key val) decoded acc)
     = fst ` set acc \<union> fst ` set decoded"
proof (induction decoded arbitrary: acc)
  case Nil
  then show ?case by simp
next
  case (Cons d decoded)
  obtain key val where d: "d = (key, val)" by (cases d)
  with Cons show ?case by (simp add: go_map_set_keys)
qed

lemma nonempty_dictionary_in_part_000:
  assumes "kvs \<noteq> []"
    and "list_all2 (\<lambda>(k, v) (key, val).
            CFStringToString k = Inr key \<and> convertFromCFType arch v = Inr val) kvs decoded"
  shows "\<exists>m. convertFromCFType arch (Ref a (CFDictionary kvs)) = Inr (VMap m)
             \<and> fst ` set m = fst ` set decoded
             \<and> map_of m = map_of (rev decoded)"
  using assms
  by (simp add: dict_items_decodes fold_go_map_set_keys fold_go_map_set_lookup)

lemma first_failing_value_in_part_000:
  assumes "list_all2 (\<lambda>(k, v) (key, val).
            CFStringToString k = Inr key \<and> convertFromCFType arch v = Inr val) kvs decoded"
    and "CFStringToString k = Inr key" and "convertFromCFType arch v = Inl (Err err)"
  shows "convertFromCFType arch (Ref a (CFDictionary (kvs @ (k, v) # rest)))
           = Inl (Err (DictValueError key err))"
proof -
  have "dict_items arch (kvs @ (k, v) # rest) acc = Inl (Err (DictValueError key err))" for acc
    using assms(1)
  proof (induction kvs decoded arbitrary: acc rule: list_all2_induct)
    case Nil
    then show ?case using assms(2,3) by simp
  next
    case (Cons kv kvs d decoded)
    then show ?case by (cases kv; cases d) simp
  qed
  then show ?thesis by simp
qed

section \<open>Failure inside an aggregate\<close>

text \<open>
  C7. Claim: when a nested conversion fails, every object the call has built is released
  before the error is returned. In \<^verbatim>\<open>ConvertToCFType\<close> the slice loop returns at once,
  and the map loop releases the key of the failing entry only. For a slice of a string and
  a channel, the string object (address 3) keeps its retain count of 1 and no
  \<^verbatim>\<open>CFRelease\<close> is called; for a map whose second value is a channel, the key and the
  value of the first entry (addresses 3 and 4) keep theirs, and the one \<^verbatim>\<open>CFRelease\<close> is
  that of the second key; for a map whose second key is not UTF-8 (the byte FF) they keep
  theirs too, and nothing is released. The caller receives the error and no reference to
  them.
\<close>

theorem failed_nested_conversion_leaks:
  "fst (ConvertToCFType (VSlice [VString ''a'', VOther ''chan int'']) initial_state)
     = Inl (Err (ArrayItemError 1 (UnsupportedType ''chan int'')))
   \<and> refcount (snd (ConvertToCFType (VSlice [VString ''a'', VOther ''chan int''])
                      initial_state)) 3 = 1
   \<and> released (snd (ConvertToCFType (VSlice [VString ''a'', VOther ''chan int''])
                      initial_state)) = []
   \<and> fst (ConvertToCFType (VMap [(''k1'', VString ''v1''), (''k2'', VOther ''chan int'')])
           initial_state)
     = Inl (Err (MapToCFDictionaryError (MapValueError ''k2'' (UnsupportedType ''chan int''))))
   \<and> refcount (snd (ConvertToCFType (VMap [(''k1'', VString ''v1''), (''k2'', VOther ''chan int'')])
                      initial_state)) 3 = 1
   \<and> refcount (snd (ConvertToCFType (VMap [(''k1'', VString ''v1''), (''k2'', VOther ''chan int'')])
                      initial_state)) 4 = 1
   \<and> released (snd (ConvertToCFType (VMap [(''k1'', VString ''v1''), (''k2'', VOther ''chan int'')])
                      initial_state)) = [Ref 5 (CFString ''k2'')]
   \<and> fst (ConvertToCFType (VMap [(''k1'', VString ''v1''), ([CHR 0xFF], VString ''v2'')])
           initial_state)
     = Inl (Err (MapToCFDictionaryError (KeyToCFStringError CFStringCreateFailed)))
   \<and> refcount (snd (ConvertToCFType (VMap [(''k1'', VString ''v1''), ([CHR 0xFF], VString ''v2'')])
                      initial_state)) 3 = 1
   \<and> refcount (snd (ConvertToCFType (VMap [(''k1'', VString ''v1''), ([CHR 0xFF], VString ''v2'')])
                      initial_state)) 4 = 1
   \<and> released (snd (ConvertToCFType (VMap [(''k1'', VString ''v1''), ([CHR 0xFF], VString ''v2'')])
                      initial_state)) = []"
  by (simp add: initial_state_def cf_calls)


section \<open>Integers\<close>

lemma sint_word_of_int_low:
  "- (2 ^ 63) \<le> x \<Longrightarrow> x < 2 ^ 63 \<Longrightarrow> sint (word_of_int x :: 64 word) = x"
  by (simp add: int_word_sint)

lemma sint_word_of_int_high:
  assumes lo: "2 ^ 63 \<le> x" and hi: "x < 2 ^ 64"
  shows "sint (word_of_int x :: 64 word) = x - 2 ^ 64"
proof -
  have e: "x + 2 ^ 63 = x - 2 ^ 63 + (2 ^ 64 :: int)"
    by simp
  have "(x + 2 ^ 63) mod 2 ^ 64 = (x - 2 ^ 63 + 2 ^ 64) mod (2 ^ 64 :: int)"
    by (subst e) (rule refl)
  also have "\<dots> = (x - 2 ^ 63) mod 2 ^ 64"
    by (simp only: mod_add_self2)
  also have "\<dots> = x - 2 ^ 63"
    using lo hi by (intro mod_pos_pos_trivial) simp_all
  finally show ?thesis
    by (simp add: int_word_sint)
qed

lemma uint_above_min_int64: "- (2 ^ 63) \<le> uint w"
  by (rule order_trans [of _ 0]) simp_all

lemma go_int_value_range: "- (2 ^ 63) \<le> go_int_value v \<and> go_int_value v < 2 ^ 64"
proof (cases v)
  case (VInt w) then show ?thesis using sint_ge [of w] sint_lt [of w] by simp
next
  case (VInt8 w) then show ?thesis using sint_ge [of w] sint_lt [of w] by simp
next
  case (VInt16 w) then show ?thesis using sint_ge [of w] sint_lt [of w] by simp
next
  case (VInt32 w) then show ?thesis using sint_ge [of w] sint_lt [of w] by simp
next
  case (VInt64 w) then show ?thesis using sint_ge [of w] sint_lt [of w] by simp
next
  case (VUint w) then show ?thesis using uint_above_min_int64 [of w] uint_lt2p [of w] by simp
next
  case (VUint8 w) then show ?thesis using uint_above_min_int64 [of w] uint_lt2p [of w] by simp
next
  case (VUint16 w) then show ?thesis using uint_above_min_int64 [of w] uint_lt2p [of w] by simp
next
  case (VUint32 w) then show ?thesis using uint_above_min_int64 [of w] uint_lt2p [of w] by simp
next
  case (VUint64 w) then show ?thesis using uint_above_min_int64 [of w] uint_lt2p [of w] by simp
qed simp_all

lemma int64Value_wraps: "is_integer v \<Longrightarrow> int64Value v = word_of_int (go_int_value v)"
  by (cases v) simp_all

lemma integer_encoding:
  "is_integer v \<Longrightarrow>
   fst (ConvertToCFType v s) = Inr (Ref (next_addr s) (CFNumber kCFNumberLongLongType (int64Value v)))"
  by (cases v) (simp_all add: number_to_CFNumber_def CFNumberCreate_def cf_create_def f64_is_zero_def)

text \<open>
  C5, as amended. Claim: every integer is widened to \<^verbatim>\<open>int64\<close>, and a value outside the
  \<^verbatim>\<open>int64\<close> range fails with \<^verbatim>\<open>ValueTooLarge\<close>. \<^verbatim>\<open>ConvertToCFType\<close> converts with
  \<^verbatim>\<open>int64(num)\<close> and has no range check: for every integer of any of the ten types it
  stores, with \<^verbatim>\<open>kCFNumberLongLongType\<close>, the value reduced modulo \<open>2 ^ 64\<close>, which
  decodes as that \<^verbatim>\<open>int64\<close>. A value below \<open>2 ^ 63\<close> is stored unchanged; a value from
  \<open>2 ^ 63\<close> on (a \<^verbatim>\<open>uint\<close> or \<^verbatim>\<open>uint64\<close>) is stored as the value minus \<open>2 ^ 64\<close>. No
  integer input fails.
\<close>

theorem integers_wrap_to_int64:
  "is_integer v \<Longrightarrow>
   fst (ConvertToCFType v s)
     = Inr (Ref (next_addr s) (CFNumber kCFNumberLongLongType (word_of_int (go_int_value v))))
   \<and> ConvertFromCFType arch
        (Ref (next_addr s) (CFNumber kCFNumberLongLongType (word_of_int (go_int_value v))))
     = Inr (VInt64 (word_of_int (go_int_value v)))
   \<and> (go_int_value v < 2 ^ 63 \<longrightarrow>
        sint (word_of_int (go_int_value v) :: 64 word) = go_int_value v)
   \<and> (2 ^ 63 \<le> go_int_value v \<longrightarrow>
        sint (word_of_int (go_int_value v) :: 64 word) = go_int_value v - 2 ^ 64)"
  using go_int_value_range [of v]
  by (simp add: integer_encoding int64Value_wraps sint_word_of_int_low sint_word_of_int_high
        integer_number_types_def)

text \<open>The theorem at the \<^verbatim>\<open>uint8\<close> 200, in the initial state.\<close>

theorem integers_wrap_to_int64_witness:
  "is_integer (VUint8 200)
   \<and> fst (ConvertToCFType (VUint8 200) initial_state)
       = Inr (Ref 3 (CFNumber kCFNumberLongLongType 200))
   \<and> ConvertFromCFType Amd64 (Ref 3 (CFNumber kCFNumberLongLongType 200)) = Inr (VInt64 200)
   \<and> ConvertFromCFType Arm64 (Ref 3 (CFNumber kCFNumberLongLongType 200)) = Inr (VInt64 200)"
  using integers_wrap_to_int64 [where v = "VUint8 200" and s = initial_state and arch = Amd64]
    integers_wrap_to_int64 [where v = "VUint8 200" and s = initial_state and arch = Arm64]
  by (simp add: initial_state_def)

text \<open>
  C5, the claim as stated fails: the \<^verbatim>\<open>uint64\<close> \<open>2 ^ 63\<close>, which is above the largest
  \<^verbatim>\<open>int64\<close>, is encoded without an error, as the \<^verbatim>\<open>int64\<close> \<open>- (2 ^ 63)\<close>.
\<close>

theorem uint64_above_int64_is_encoded:
  "fst (ConvertToCFType (VUint64 9223372036854775808) initial_state)
     = Inr (Ref 3 (CFNumber kCFNumberLongLongType 9223372036854775808))
   \<and> ConvertFromCFType Amd64 (Ref 3 (CFNumber kCFNumberLongLongType 9223372036854775808))
     = Inr (VInt64 9223372036854775808)
   \<and> ConvertFromCFType Arm64 (Ref 3 (CFNumber kCFNumberLongLongType 9223372036854775808))
     = Inr (VInt64 9223372036854775808)
   \<and> sint (9223372036854775808 :: 64 word) = - 9223372036854775808"
  by (simp add: initial_state_def cf_calls integer_number_types_def)

text \<open>
  In \<^verbatim>\<open>unnamed/part_000\<close> the signed integers are stored in the same way, and every
  unsigned integer makes \<^verbatim>\<open>reflect.ValueOf(num).Int()\<close> panic.
\<close>

lemma unsigned_integers_panic_in_part_000:
  "is_unsigned v \<Longrightarrow> convertToCFType v s = (Inl (Crash ReflectIntOnUint), s)"
  by (cases v) simp_all

lemma signed_integers_in_part_000:
  "is_integer v \<Longrightarrow> \<not> is_unsigned v \<Longrightarrow>
   fst (convertToCFType v s)
     = Inr (Ref (next_addr s) (CFNumber kCFNumberLongLongType (word_of_int (go_int_value v))))"
  by (cases v) (simp_all add: CFNumberCreate_def cf_create_def)

section \<open>Timestamps\<close>

text \<open>
  C9, as amended. Claim: every timestamp is stored as its Unix seconds minus 978307200 and
  every whole-second UTC instant comes back unchanged. The subtraction and the addition
  are done in \<^verbatim>\<open>float64\<close>, which is exact on integers up to \<open>2 ^ 53\<close>: for every
  timestamp whose Unix seconds lie strictly between \<open>- (2 ^ 53) + 978307200\<close> and
  \<open>2 ^ 53\<close>, \<^verbatim>\<open>TimeToCFDate\<close> stores the seconds minus 978307200, whatever the
  nanoseconds and the location, and \<^verbatim>\<open>CFDateToTime\<close> returns the UTC time of the same
  second with no nanoseconds.
\<close>

theorem timestamp_round_trip_within_2_53:
  assumes lo: "- (2 ^ 53) + 978307200 < sint u" and hi: "sint u < 2 ^ 53"
  shows "fst (TimeToCFDate (Time u n l) s) = Ref (next_addr s) (CFDate (sint u - 978307200))
         \<and> CFDateToTime arch (fst (TimeToCFDate (Time u n l) s)) = Inr (Time u 0 UTC)"
proof -
  have a: "f64_round (sint u) = sint u"
    using lo hi by (intro f64_round_exact) linarith
  have b: "f64_round (sint u - 978307200) = sint u - 978307200"
    using lo hi by (intro f64_round_exact) linarith
  have c: "f64_to_int64 arch (sint u) = u"
    using lo hi by (simp add: f64_to_int64_def)
  show ?thesis
    by (simp add: TimeToCFDate_def cf_create_def a b c)
qed

text \<open>The theorem at 2023-05-01T12:00:00Z (Unix second 1682942400), in the initial state.\<close>

theorem timestamp_round_trip_within_2_53_witness:
  "- (2 ^ 53) + 978307200 < sint (1682942400 :: 64 word)
   \<and> sint (1682942400 :: 64 word) < 2 ^ 53
   \<and> fst (TimeToCFDate (Time 1682942400 0 UTC) initial_state) = Ref 3 (CFDate 704635200)
   \<and> CFDateToTime Amd64 (fst (TimeToCFDate (Time 1682942400 0 UTC) initial_state))
       = Inr (Time 1682942400 0 UTC)
   \<and> CFDateToTime Arm64 (fst (TimeToCFDate (Time 1682942400 0 UTC) initial_state))
       = Inr (Time 1682942400 0 UTC)"
  using timestamp_round_trip_within_2_53
          [where u = 1682942400 and n = 0 and l = UTC and s = initial_state and arch = Amd64]
    timestamp_round_trip_within_2_53
          [where u = 1682942400 and n = 0 and l = UTC and s = initial_state and arch = Arm64]
  by (auto simp: initial_state_def simp del: CFDateToTime.simps)

text \<open>
  C9, the claim as stated fails: the whole-second UTC instant of Unix second
  \<open>2 ^ 53 + 1\<close> comes back as the instant of second \<open>2 ^ 53\<close>.
\<close>

theorem far_instant_is_not_restored:
  "CFDateToTime Amd64 (fst (TimeToCFDate (Time 9007199254740993 0 UTC) initial_state))
     = Inr (Time 9007199254740992 0 UTC)
   \<and> CFDateToTime Arm64 (fst (TimeToCFDate (Time 9007199254740993 0 UTC) initial_state))
     = Inr (Time 9007199254740992 0 UTC)"
  by (simp add: initial_state_def TimeToCFDate_def cf_create_def f64_round_def Let_def
        f64_to_int64_def f64_exponent_small f64_exponent_step)

section \<open>Releasing\<close>

text \<open>
  C6, as amended. Claim: \<^verbatim>\<open>Release\<close> recognises the boolean singletons and never
  releases them, and does nothing on NULL. \<^verbatim>\<open>Release\<close> tests for NULL only: it does
  nothing on NULL and calls \<^verbatim>\<open>CFRelease\<close> on every other reference, the two boolean
  singletons included; on those the call leaves every retain count as it was.
\<close>

theorem Release_on_every_non_null:
  "Release NilCFType s = s
   \<and> (r \<noteq> NilCFType \<longrightarrow> released (Release r s) = released s @ [r])
   \<and> (r = kCFBooleanTrue \<or> r = kCFBooleanFalse \<longrightarrow> refcount (Release r s) = refcount s)"
  by (auto simp: Release_def CFRelease_def cf_drop_frame kCFBooleanTrue_def kCFBooleanFalse_def
        is_constant_object_def)

text \<open>The theorem at \<^verbatim>\<open>kCFBooleanTrue\<close>, in the initial state.\<close>

theorem Release_on_every_non_null_witness:
  "kCFBooleanTrue \<noteq> NilCFType
   \<and> released (Release kCFBooleanTrue initial_state) = [kCFBooleanTrue]
   \<and> refcount (Release kCFBooleanTrue initial_state) = (\<lambda>_. 0)"
  using Release_on_every_non_null [of initial_state kCFBooleanTrue]
  by (simp add: kCFBooleanTrue_def initial_state_def)

text \<open>
  C6, the claim as stated fails: \<^verbatim>\<open>Set\<close> with the value \<^verbatim>\<open>true\<close> passes the singleton
  \<^verbatim>\<open>kCFBooleanTrue\<close> to \<^verbatim>\<open>CFRelease\<close>, between the releases of the application
  identifier and of the key.
\<close>

theorem Set_releases_the_boolean_singleton:
  "released (snd (Set_exported ''TestKey'' (VBool True) ''com.example.app''
                    CurrentUserCurrentHost initial_state))
   = [Ref 4 (CFString ''com.example.app''), kCFBooleanTrue, Ref 3 (CFString ''TestKey'')]"
  by (simp add: Set_exported_def Set_with_def string_calls scope_names Let_def
        CFPreferencesSetValue_def Release_frame Release_log cf_drop_frame initial_state_def
        kCFBooleanTrue_def is_constant_object_def)

section \<open>Dictionary keys\<close>

lemma CFStringToString_fails_by_crash: "CFStringToString k = Inl f \<Longrightarrow> \<exists>c. f = Crash c"
  by (cases k rule: CFStringToString.cases) auto

lemma dict_items_error_is_of_a_value:
  "dict_items arch kvs acc = Inl (Err e) \<Longrightarrow>
   \<exists>pre decoded k v rest key err.
      kvs = pre @ (k, v) # rest
    \<and> list_all2 (\<lambda>(k, v) (key, val).
          CFStringToString k = Inr key \<and> convertFromCFType arch v = Inr val) pre decoded
    \<and> CFStringToString k = Inr key
    \<and> convertFromCFType arch v = Inl (Err err)
    \<and> e = DictValueError key err"
proof (induction kvs arbitrary: acc)
  case Nil
  then show ?case by simp
next
  case (Cons kv kvs)
  obtain k v where kv: "kv = (k, v)" by (cases kv)
  from Cons.prems kv obtain key where key: "CFStringToString k = Inr key"
    by (cases "CFStringToString k") (auto dest: CFStringToString_fails_by_crash)
  show ?case
  proof (cases "convertFromCFType arch v")
    case (Inl f)
    with Cons.prems kv key obtain err where
      "f = Err err" and "e = DictValueError key err"
      by (cases f) auto
    with Inl key kv show ?thesis
      by (intro exI [of _ "[]"]) auto
  next
    case (Inr val)
    with Cons.prems kv key have "dict_items arch kvs (go_map_set key val acc) = Inl (Err e)"
      by simp
    from Cons.IH [OF this] obtain pre decoded k' v' rest key' err where
      "kvs = pre @ (k', v') # rest"
      "list_all2 (\<lambda>(k, v) (key, val).
          CFStringToString k = Inr key \<and> convertFromCFType arch v = Inr val) pre decoded"
      "CFStringToString k' = Inr key'" "convertFromCFType arch v' = Inl (Err err)"
      "e = DictValueError key' err"
      by blast
    with kv key Inr show ?thesis
      by (intro exI [of _ "(k, v) # pre"] exI [of _ "(key, val) # decoded"]) auto
  qed
qed

lemma dict_items_stops_at_failing_value:
  assumes "list_all2 (\<lambda>(k, v) (key, val).
             CFStringToString k = Inr key \<and> convertFromCFType arch v = Inr val) pre decoded"
    and "CFStringToString k = Inr key" and "convertFromCFType arch v = Inl (Err err)"
  shows "dict_items arch (pre @ (k, v) # rest) acc = Inl (Err (DictValueError key err))"
  using assms(1)
proof (induction pre decoded arbitrary: acc rule: list_all2_induct)
  case Nil
  then show ?case using assms(2,3) by simp
next
  case (Cons kv pre d decoded)
  then show ?case by (cases kv; cases d) simp
qed

lemma dict_items_stops_at_unreadable_key:
  assumes "list_all2 (\<lambda>(k, v) (key, val).
             CFStringToString k = Inr key \<and> convertFromCFType arch v = Inr val) pre decoded"
    and "CFStringToString k = Inl f"
  shows "dict_items arch (pre @ (k, v) # rest) acc = Inl f"
  using assms(1)
proof (induction pre decoded arbitrary: acc rule: list_all2_induct)
  case Nil
  then show ?case using assms(2) by simp
next
  case (Cons kv pre d decoded)
  then show ?case by (cases kv; cases d) simp
qed

text \<open>
  C8, as amended. Claim: decoding a dictionary with a key that is not a string fails with
  \<^verbatim>\<open>UnsupportedKeyType\<close>. \<^verbatim>\<open>convertFromCFType\<close> never looks at the type of a key: it
  passes every key to \<^verbatim>\<open>cfStringToString\<close> as it is, and has no error for a key.
  Decoding a dictionary returns an error exactly when, after entries whose keys are read
  and whose values decode, there is an entry whose key is read and whose value fails to
  decode with an error; the error returned is that error, wrapped with the key as read
  ("error converting dictionary value for key ..."). When the key of that entry cannot be
  read instead, decoding yields what \<^verbatim>\<open>cfStringToString\<close> yields there.
\<close>

theorem dictionary_keys_are_not_checked:
  "(convertFromCFType arch (Ref a (CFDictionary kvs)) = Inl (Err e)
      \<longleftrightarrow> (\<exists>pre decoded k v rest key err.
              kvs = pre @ (k, v) # rest
            \<and> list_all2 (\<lambda>(k, v) (key, val).
                  CFStringToString k = Inr key \<and> convertFromCFType arch v = Inr val) pre decoded
            \<and> CFStringToString k = Inr key
            \<and> convertFromCFType arch v = Inl (Err err)
            \<and> e = DictValueError key err))
   \<and> (list_all2 (\<lambda>(k, v) (key, val).
          CFStringToString k = Inr key \<and> convertFromCFType arch v = Inr val) pre' decoded'
        \<and> CFStringToString k' = Inl f
      \<longrightarrow> convertFromCFType arch (Ref a (CFDictionary (pre' @ (k', v') # rest'))) = Inl f)"
proof (intro conjI iffI impI)
  assume "convertFromCFType arch (Ref a (CFDictionary kvs)) = Inl (Err e)"
  then have "dict_items arch kvs [] = Inl (Err e)"
    by (auto split: if_splits sum.splits)
  then show "\<exists>pre decoded k v rest key err.
      kvs = pre @ (k, v) # rest
    \<and> list_all2 (\<lambda>(k, v) (key, val).
          CFStringToString k = Inr key \<and> convertFromCFType arch v = Inr val) pre decoded
    \<and> CFStringToString k = Inr key
    \<and> convertFromCFType arch v = Inl (Err err)
    \<and> e = DictValueError key err"
    by (rule dict_items_error_is_of_a_value)
next
  assume "\<exists>pre decoded k v rest key err.
      kvs = pre @ (k, v) # rest
    \<and> list_all2 (\<lambda>(k, v) (key, val).
          CFStringToString k = Inr key \<and> convertFromCFType arch v = Inr val) pre decoded
    \<and> CFStringToString k = Inr key
    \<and> convertFromCFType arch v = Inl (Err err)
    \<and> e = DictValueError key err"
  then show "convertFromCFType arch (Ref a (CFDictionary kvs)) = Inl (Err e)"
    by (auto simp: dict_items_stops_at_failing_value)
next
  assume "list_all2 (\<lambda>(k, v) (key, val).
          CFStringToString k = Inr key \<and> convertFromCFType arch v = Inr val) pre' decoded'
        \<and> CFStringToString k' = Inl f"
  then have "list_all2 (\<lambda>(k, v) (key, val).
          CFStringToString k = Inr key \<and> convertFromCFType arch v = Inr val) pre' decoded'"
    and "CFStringToString k' = Inl f"
    by simp_all
  then have "dict_items arch (pre' @ (k', v') # rest') [] = Inl f"
    by (rule dict_items_stops_at_unreadable_key)
  then show "convertFromCFType arch (Ref a (CFDictionary (pre' @ (k', v') # rest'))) = Inl f"
    by simp
qed

text \<open>
  The theorem at a dictionary whose one value is of a type the decoder does not know, and
  at a dictionary whose second key is a data object.
\<close>

theorem dictionary_keys_are_not_checked_witness:
  "convertFromCFType Amd64 (Ref 9 (CFDictionary [(Ref 3 (CFString ''k''), Ref 4 CFOther)]))
     = Inl (Err (DictValueError ''k'' UnsupportedCFTypeRef))
   \<and> convertFromCFType Arm64
       (Ref 9 (CFDictionary [(Ref 3 (CFString ''a''), Ref 4 (CFBoolean True)),
                             (Ref 5 (CFData []), Ref 6 (CFString ''v''))]))
     = Inl (Crash CFWrongType)"
proof -
  have "\<exists>pre decoded k v rest key err.
      [(Ref 3 (CFString ''k''), Ref 4 CFOther)] = pre @ (k, v) # rest
    \<and> list_all2 (\<lambda>(k, v) (key, val).
          CFStringToString k = Inr key \<and> convertFromCFType Amd64 v = Inr val) pre decoded
    \<and> CFStringToString k = Inr key
    \<and> convertFromCFType Amd64 v = Inl (Err err)
    \<and> DictValueError ''k'' UnsupportedCFTypeRef = DictValueError key err"
    by (intro exI [of _ "[]"] exI [of _ "Ref 3 (CFString ''k'')"] exI [of _ "Ref 4 CFOther"]
          exI [of _ "''k''"] exI [of _ UnsupportedCFTypeRef]) simp
  then have first:
    "convertFromCFType Amd64 (Ref 9 (CFDictionary [(Ref 3 (CFString ''k''), Ref 4 CFOther)]))
       = Inl (Err (DictValueError ''k'' UnsupportedCFTypeRef))"
    by (rule dictionary_keys_are_not_checked [THEN conjunct1, THEN iffD2])
  have "list_all2 (\<lambda>(k, v) (key, val).
          CFStringToString k = Inr key \<and> convertFromCFType Arm64 v = Inr val)
          [(Ref 3 (CFString ''a''), Ref 4 (CFBoolean True))] [(''a'', VBool True)]
        \<and> CFStringToString (Ref 5 (CFData [])) = Inl (Crash CFWrongType)"
    by simp
  then have
    "convertFromCFType Arm64
       (Ref 9 (CFDictionary ([(Ref 3 (CFString ''a''), Ref 4 (CFBoolean True))]
                              @ (Ref 5 (CFData []), Ref 6 (CFString ''v'')) # [])))
     = Inl (Crash CFWrongType)"
    by (rule dictionary_keys_are_not_checked [THEN conjunct2, THEN mp])
  with first show ?thesis by simp
qed

text \<open>
  C8, the claim as stated fails. A dictionary that holds a key that is a number, after an
  entry whose value is of a type the decoder does not know, fails with the error of that
  value; the key is never looked at. A dictionary whose one key is a number is handed to
  \<^verbatim>\<open>cfStringToString\<close> with that key, a call outside CoreFoundation's contract, recorded
  here as a trap; no error is returned.
\<close>

theorem non_string_key_is_not_reported:
  "convertFromCFType Amd64
     (Ref 9 (CFDictionary [(Ref 3 (CFString ''k''), Ref 4 CFOther),
                           (Ref 5 (CFNumber kCFNumberSInt64Type 1), Ref 6 (CFString ''v''))]))
     = Inl (Err (DictValueError ''k'' UnsupportedCFTypeRef))
   \<and> convertFromCFType Arm64
     (Ref 9 (CFDictionary [(Ref 3 (CFString ''k''), Ref 4 CFOther),
                           (Ref 5 (CFNumber kCFNumberSInt64Type 1), Ref 6 (CFString ''v''))]))
     = Inl (Err (DictValueError ''k'' UnsupportedCFTypeRef))
   \<and> convertFromCFType Amd64
     (Ref 9 (CFDictionary [(Ref 3 (CFNumber kCFNumberSInt64Type 1), Ref 4 (CFString ''v''))]))
     = Inl (Crash CFWrongType)
   \<and> convertFromCFType Arm64
     (Ref 9 (CFDictionary [(Ref 3 (CFNumber kCFNumberSInt64Type 1), Ref 4 (CFString ''v''))]))
     = Inl (Crash CFWrongType)"
  by simp

end
